theory Spec2Isabelle
  imports Complex_Main
begin

section \<open>Pantry Pilot: the replenishment decision engine and its orchestration\<close>

text \<open>
  A shallow embedding of the JavaScript classes
  \<^item> \<^verbatim>\<open>Product\<close> (the item and its derived quantities),
  \<^item> \<^verbatim>\<open>ReplenishmentPolicy\<close> (the decision engine: \<^verbatim>\<open>computeDecision\<close> and
    \<^verbatim>\<open>_applyOrderConstraints\<close>),
  \<^item> \<^verbatim>\<open>CheckAndNotifyReplenishment\<close> (the orchestrator: \<^verbatim>\<open>execute\<close>, in the version that
    knows \<^verbatim>\<open>autoDecrementStock\<close> and \<^verbatim>\<open>updateCalculatedQuantities\<close>),
  \<^item> \<^verbatim>\<open>SheetRowMapper\<close> (\<^verbatim>\<open>rowToProduct\<close> and its parsers) and the \<^verbatim>\<open>listProducts\<close> method
    of \<^verbatim>\<open>GoogleSheetsInventoryRepository\<close> (the source layer).

  Conventions of the embedding.
  \<^item> A JavaScript number is a \<^typ>\<open>real\<close>: arithmetic is exact, and the rounding of
    doubles, \<^verbatim>\<open>NaN\<close> and the infinities are outside the model.
  \<^item> A \<^verbatim>\<open>Date\<close> is its \<^verbatim>\<open>getTime()\<close>, an \<^typ>\<open>int\<close> of milliseconds since the epoch,
    with no upper or lower limit (the runtime limits a \<^verbatim>\<open>Date\<close> to 8.64e15 ms on either side
    of the epoch).
  \<^item> A property that may be \<^verbatim>\<open>null\<close> or \<^verbatim>\<open>undefined\<close> is an \<open>option\<close>, \<open>None\<close>
    standing for both.
  \<^item> An exception is a value: a function that can throw returns a sum whose left
    injection is the error.
  \<^item> The ports (inventory repository, notifier, clock) are parameters of the
    orchestrator; every call of a port is recorded in a trace, so that "is called once"
    and "is never called" are statements about that trace. Calls of the logger are not
    recorded.
\<close>

subsection \<open>The item (\<^verbatim>\<open>Product\<close>)\<close>

type_synonym timestamp = int

record auto_subscription =
  active :: bool
  details :: "string option"

record buy_ref =
  place :: "string option"
  url :: "string option"

record product =
  id_p :: string
  name :: string
  brand :: "string option"
  unit :: string
  qtyRemaining :: real
  avgDailyConsumption :: "real option"
  avgMonthlyConsumption :: "real option"
  lastReplenishedAt :: "timestamp option"
  autoSubscription :: "auto_subscription option"
  buy :: "buy_ref option"
  leadTimeDays :: real
  safetyStockDays :: real
  minOrderQty :: "real option"
  packSize :: "real option"
  needsReplenishment :: bool
  replenishByDate :: "timestamp option"
  recommendedOrderQty :: "real option"
  reason :: "string option"
  lastCheckAt :: "timestamp option"

text \<open>
  The constructor's checks. The \<^verbatim>\<open>typeof\<close> tests are discharged by the types of the
  record; what remains is that id and name are not empty, that the unit is one of the
  three enumerated strings and that the quantity is not negative.
\<close>

definition Product_new :: "product \<Rightarrow> string + product" where
  "Product_new f =
     (if id_p f = [] then Inl ''Product id is required and must be a string''
      else if name f = [] then Inl ''Product name is required and must be a string''
      else if unit f = [] \<or> unit f \<notin> set [''count'', ''ml'', ''g'']
        then Inl ''Product unit is required and must be one of: count, ml, g''
      else if qtyRemaining f < 0 then Inl ''Product qtyRemaining must be a non-negative number''
      else Inr f)"

text \<open>\<^verbatim>\<open>v !== null && v > 0\<close> on an optional number.\<close>

fun is_positive :: "real option \<Rightarrow> bool" where
  "is_positive None = False"
| "is_positive (Some x) = (x > 0)"

definition getAvgDailyConsumption :: "product \<Rightarrow> real option" where
  "getAvgDailyConsumption p =
     (if is_positive (avgDailyConsumption p) then avgDailyConsumption p
      else if is_positive (avgMonthlyConsumption p)
        then map_option (\<lambda>m. m / 30.44) (avgMonthlyConsumption p)
      else None)"

definition hasAutoSubscription :: "product \<Rightarrow> bool" where
  "hasAutoSubscription p = (case autoSubscription p of None \<Rightarrow> False | Some a \<Rightarrow> active a)"

definition msPerDay :: real where
  "msPerDay = 1000 * 60 * 60 * 24"

text \<open>
  \<^verbatim>\<open>calculateCurrentStock\<close>: the first guard returns the recorded quantity when there is no
  replenishment date or when the recorded quantity is falsy, which for a number is 0.
\<close>

definition calculateCurrentStock :: "product \<Rightarrow> timestamp \<Rightarrow> real" where
  "calculateCurrentStock p now =
     (case lastReplenishedAt p of
        None \<Rightarrow> qtyRemaining p
      | Some replenishedAt \<Rightarrow>
          if qtyRemaining p = 0 then qtyRemaining p
          else (case getAvgDailyConsumption p of
                  None \<Rightarrow> qtyRemaining p
                | Some avgDaily \<Rightarrow>
                    if avgDaily = 0 \<or> avgDaily \<le> 0 then qtyRemaining p
                    else (let daysSinceReplenishment = real_of_int (now - replenishedAt) / msPerDay;
                              consumedSinceReplenishment = avgDaily * daysSinceReplenishment
                          in max 0 (qtyRemaining p - consumedSinceReplenishment))))"

definition getDaysSinceLastReplenishment :: "product \<Rightarrow> timestamp \<Rightarrow> real option" where
  "getDaysSinceLastReplenishment p now =
     (case lastReplenishedAt p of
        None \<Rightarrow> None
      | Some replenishedAt \<Rightarrow> Some (real_of_int (now - replenishedAt) / msPerDay))"

text \<open>
  \<^verbatim>\<open>clone\<close> builds a new \<^verbatim>\<open>Product\<close> from the fields of this one, so it runs the
  constructor's checks again.
\<close>

definition clone :: "product \<Rightarrow> string + product" where
  "clone p = Product_new p"

subsection \<open>The decision engine (\<^verbatim>\<open>ReplenishmentPolicy\<close>)\<close>

datatype reason_code =
    AUTO_SUBSCRIPTION_ACTIVE
  | DEPLETED_OR_INVALID
  | INSUFFICIENT_CONSUMPTION_DATA
  | WITHIN_TARGET_WINDOW
  | SUFFICIENT_STOCK

fun reason_string :: "reason_code \<Rightarrow> string" where
  "reason_string AUTO_SUBSCRIPTION_ACTIVE = ''auto_subscription_active''"
| "reason_string DEPLETED_OR_INVALID = ''depleted_or_invalid''"
| "reason_string INSUFFICIENT_CONSUMPTION_DATA = ''insufficient_consumption_data''"
| "reason_string WITHIN_TARGET_WINDOW = ''within_target_window''"
| "reason_string SUFFICIENT_STOCK = ''sufficient_stock''"

record decision =
  d_needsReplenishment :: bool
  d_recommendedOrderQty :: "real option"
  d_replenishByDate :: "timestamp option"
  d_reason :: reason_code
  d_daysUntilDepletion :: "real option"
  d_currentStock :: real
  d_daysSinceReplenishment :: "real option"

text \<open>
  The options object of \<^verbatim>\<open>computeDecision\<close>. A field that is \<open>None\<close> is absent and takes
  the default of the destructuring pattern (14, \<^verbatim>\<open>null\<close>, \<^verbatim>\<open>true\<close>); the orchestrator
  always passes \<^verbatim>\<open>now\<close>. For the target-window override \<^verbatim>\<open>null\<close> and \<^verbatim>\<open>undefined\<close>
  behave alike. A review horizon that is explicitly \<^verbatim>\<open>null\<close> is not modelled: the entry
  point replaces it by 14 before the core runs.
\<close>

record decision_options =
  opt_now :: timestamp
  opt_reviewHorizonDays :: "real option"
  opt_overrideTargetWindowDays :: "real option"
  opt_autoDecrementStock :: "bool option"

text \<open>\<^verbatim>\<open>a || d\<close> for an optional number \<open>a\<close> and a number \<open>d\<close>: \<^verbatim>\<open>null\<close> and 0 are falsy.\<close>

definition orNumber :: "real option \<Rightarrow> real \<Rightarrow> real" where
  "orNumber a d = (case a of None \<Rightarrow> d | Some x \<Rightarrow> if x = 0 then d else x)"

text \<open>
  \<^verbatim>\<open>new Date(t)\<close> for a number \<open>t\<close> of milliseconds keeps the integral part of \<open>t\<close>
  (truncation toward zero).
\<close>

definition newDate :: "real \<Rightarrow> timestamp" where
  "newDate t = (if t \<ge> 0 then \<lfloor>t\<rfloor> else \<lceil>t\<rceil>)"

definition applyOrderConstraints :: "real \<Rightarrow> product \<Rightarrow> real" where
  "applyOrderConstraints baseQty p =
     (let qty = max baseQty (orNumber (minOrderQty p) 1)
      in case packSize p of
           None \<Rightarrow> qty
         | Some ps \<Rightarrow> if ps \<noteq> 0 \<and> ps > 1 then real_of_int \<lceil>qty / ps\<rceil> * ps else qty)"

definition computeDecision :: "product \<Rightarrow> decision_options \<Rightarrow> decision" where
  "computeDecision p options =
     (let now = opt_now options;
          reviewHorizonDays = (case opt_reviewHorizonDays options of None \<Rightarrow> 14 | Some h \<Rightarrow> h);
          overrideTargetWindowDays = opt_overrideTargetWindowDays options;
          autoDecrementStock = (case opt_autoDecrementStock options of None \<Rightarrow> True | Some b \<Rightarrow> b);
          avgDaily = getAvgDailyConsumption p;
          currentStock = (if autoDecrementStock then calculateCurrentStock p now else qtyRemaining p);
          isDepleted = (currentStock \<le> 0);
          noRate = \<lparr> d_needsReplenishment = isDepleted,
                     d_recommendedOrderQty =
                       (if isDepleted
                        then Some (max 1 (orNumber (minOrderQty p) (orNumber (packSize p) 1)))
                        else None),
                     d_replenishByDate = None,
                     d_reason = (if isDepleted then DEPLETED_OR_INVALID
                                 else INSUFFICIENT_CONSUMPTION_DATA),
                     d_daysUntilDepletion = None,
                     d_currentStock = currentStock,
                     d_daysSinceReplenishment = getDaysSinceLastReplenishment p now \<rparr>
      in if hasAutoSubscription p then
           \<lparr> d_needsReplenishment = False,
             d_recommendedOrderQty = None,
             d_replenishByDate = None,
             d_reason = AUTO_SUBSCRIPTION_ACTIVE,
             d_daysUntilDepletion =
               (case avgDaily of
                  None \<Rightarrow> None
                | Some r \<Rightarrow> if r \<noteq> 0 \<and> r > 0 then Some (currentStock / r) else None),
             d_currentStock = currentStock,
             d_daysSinceReplenishment = getDaysSinceLastReplenishment p now \<rparr>
         else (case avgDaily of
                 None \<Rightarrow> noRate
               | Some r \<Rightarrow>
                   if r = 0 \<or> r \<le> 0 then noRate
                   else (let daysUntilDepletion = currentStock / r;
                             targetWindowDays =
                               (case overrideTargetWindowDays of
                                  Some w \<Rightarrow> w
                                | None \<Rightarrow> leadTimeDays p + safetyStockDays p);
                             needs = (daysUntilDepletion \<le> targetWindowDays);
                             targetCoverageDays = targetWindowDays + reviewHorizonDays;
                             targetQty =
                               real_of_int \<lceil>max 0 (targetCoverageDays * r - currentStock)\<rceil>;
                             daysToReplenish = max 0 (daysUntilDepletion - leadTimeDays p)
                         in \<lparr> d_needsReplenishment = needs,
                              d_recommendedOrderQty =
                                (if needs then Some (applyOrderConstraints targetQty p) else None),
                              d_replenishByDate =
                                (if needs
                                 then Some (newDate (real_of_int now + daysToReplenish * 86400000))
                                 else None),
                              d_reason = (if needs then WITHIN_TARGET_WINDOW else SUFFICIENT_STOCK),
                              d_daysUntilDepletion = Some daysUntilDepletion,
                              d_currentStock = currentStock,
                              d_daysSinceReplenishment =
                                getDaysSinceLastReplenishment p now \<rparr>)))"

subsection \<open>The orchestrator (\<^verbatim>\<open>CheckAndNotifyReplenishment\<close>)\<close>

record policy_overrides =
  reviewHorizonDays :: "real option"
  overrideTargetWindowDays :: "real option"
  autoDecrementStock :: "bool option"
  updateCalculatedQuantities :: bool

record notification_options =
  enabled :: bool
  dryRun :: bool
  subjectPrefix :: "string option"

text \<open>
  \<^verbatim>\<open>toISOString().slice(0, 10)\<close> keeps the UTC calendar date \<^verbatim>\<open>YYYY-MM-DD\<close> of a
  \<^verbatim>\<open>Date\<close> and drops its time of day. The date is represented by the number of its UTC
  day, counted from the epoch, which the string determines and is determined by.
\<close>

type_synonym calendar_date = int

definition toISODate :: "timestamp \<Rightarrow> calendar_date" where
  "toISODate t = t div 86400000"

record result_item =
  r_id :: string
  r_name :: string
  r_brand :: "string option"
  r_unit :: string
  r_qtyRemaining :: real
  r_currentStock :: real
  r_avgDaily :: "real option"
  r_daysUntilDepletion :: "real option"
  r_daysSinceReplenishment :: "real option"
  r_needsReplenishment :: bool
  r_recommendedOrderQty :: "real option"
  r_replenishByDate :: "calendar_date option"
  r_reason :: reason_code
  r_buy :: "buy_ref option"

record policy_report =
  pol_targetWindowDays :: real
  pol_reviewHorizonDays :: real

record summary =
  checkedCount :: nat
  needsReplenishmentCount :: nat
  generatedAt :: timestamp
  policy :: policy_report
  items :: "result_item list"

record save_options =
  updateQuantities :: bool
  updateAllFields :: bool

text \<open>
  The message handed to the notifier. Its subject and its two bodies are strings rendered
  from the four arguments of \<^verbatim>\<open>_buildEmailMessage\<close> and from nothing else; the message is
  represented by these arguments, and the rendering itself is not modelled.
\<close>

record email_message =
  msg_items :: "result_item list"
  msg_generatedAt :: timestamp
  msg_subjectPrefix :: string
  msg_dryRun :: bool

definition buildEmailMessage ::
  "result_item list \<Rightarrow> timestamp \<Rightarrow> string \<Rightarrow> bool \<Rightarrow> email_message" where
  "buildEmailMessage its gen prefix dry =
     \<lparr> msg_items = its, msg_generatedAt = gen, msg_subjectPrefix = prefix, msg_dryRun = dry \<rparr>"

datatype error = AdapterError string | Error string

text \<open>
  The collaborators. \<open>port_listProducts\<close> is the outcome of the one read call;
  \<open>port_saveProducts\<close> and \<open>port_send\<close> give, for the arguments of a call, \<open>None\<close> when
  the call resolves and the error when it rejects.
\<close>

record ports =
  port_now :: timestamp
  port_listProducts :: "string + product list"
  port_saveProducts :: "product list \<Rightarrow> save_options \<Rightarrow> string option"
  port_send :: "email_message \<Rightarrow> string option"

datatype port_call =
    ListProducts
  | SaveProducts "product list" save_options
  | Send email_message

fun saves :: "port_call list \<Rightarrow> (product list \<times> save_options) list" where
  "saves [] = []"
| "saves (SaveProducts us so # cs) = (us, so) # saves cs"
| "saves (c # cs) = saves cs"

fun sends :: "port_call list \<Rightarrow> email_message list" where
  "sends [] = []"
| "sends (Send m # cs) = m # sends cs"
| "sends (c # cs) = sends cs"

text \<open>\<^verbatim>\<open>a || d\<close> for an optional string: \<^verbatim>\<open>undefined\<close> and the empty string are falsy.\<close>

definition orString :: "string option \<Rightarrow> string \<Rightarrow> string" where
  "orString a d = (case a of None \<Rightarrow> d | Some s \<Rightarrow> if s = [] then d else s)"

text \<open>The options the loop passes to the engine for every item.\<close>

definition engineOptions :: "policy_overrides \<Rightarrow> timestamp \<Rightarrow> decision_options" where
  "engineOptions po now =
     \<lparr> opt_now = now,
       opt_reviewHorizonDays = reviewHorizonDays po,
       opt_overrideTargetWindowDays = overrideTargetWindowDays po,
       opt_autoDecrementStock = Some (autoDecrementStock po \<noteq> Some False) \<rparr>"

definition resultItem :: "product \<Rightarrow> decision \<Rightarrow> result_item" where
  "resultItem p d =
     \<lparr> r_id = id_p p,
       r_name = name p,
       r_brand = brand p,
       r_unit = unit p,
       r_qtyRemaining = qtyRemaining p,
       r_currentStock = d_currentStock d,
       r_avgDaily = getAvgDailyConsumption p,
       r_daysUntilDepletion = d_daysUntilDepletion d,
       r_daysSinceReplenishment = d_daysSinceReplenishment d,
       r_needsReplenishment = d_needsReplenishment d,
       r_recommendedOrderQty = d_recommendedOrderQty d,
       r_replenishByDate = map_option toISODate (d_replenishByDate d),
       r_reason = d_reason d,
       r_buy = buy p \<rparr>"

text \<open>
  The assignments to the clone: the derived attributes and \<^verbatim>\<open>lastCheckAt\<close>, and the
  quantity when \<^verbatim>\<open>updateCalculatedQuantities\<close> is set and the computed stock differs from
  the recorded one.
\<close>

definition applyDecision ::
  "policy_overrides \<Rightarrow> timestamp \<Rightarrow> product \<Rightarrow> decision \<Rightarrow> product \<Rightarrow> product" where
  "applyDecision po now p d c =
     (let u = c \<lparr> needsReplenishment := d_needsReplenishment d,
                  recommendedOrderQty := d_recommendedOrderQty d,
                  replenishByDate := d_replenishByDate d,
                  reason := Some (reason_string (d_reason d)),
                  lastCheckAt := Some now \<rparr>
      in if updateCalculatedQuantities po \<and> d_currentStock d \<noteq> qtyRemaining p
         then u \<lparr> qtyRemaining := d_currentStock d \<rparr>
         else u)"

definition updatedProduct ::
  "policy_overrides \<Rightarrow> timestamp \<Rightarrow> product \<Rightarrow> decision \<Rightarrow> string + product" where
  "updatedProduct po now p d =
     (case clone p of
        Inl msg \<Rightarrow> Inl msg
      | Inr c \<Rightarrow> Inr (applyDecision po now p d c))"

text \<open>
  The loop over the loaded products: one result row and one updated product per item, in
  the order of the list. An exception in the body leaves the loop.
\<close>

fun evaluateProducts ::
  "policy_overrides \<Rightarrow> timestamp \<Rightarrow> product list \<Rightarrow> error + (result_item list \<times> product list)"
where
  "evaluateProducts po now [] = Inr ([], [])"
| "evaluateProducts po now (p # ps) =
     (let d = computeDecision p (engineOptions po now)
      in case updatedProduct po now p d of
           Inl msg \<Rightarrow> Inl (Error msg)
         | Inr u \<Rightarrow>
             (case evaluateProducts po now ps of
                Inl e \<Rightarrow> Inl e
              | Inr (results, updates) \<Rightarrow> Inr (resultItem p d # results, u # updates)))"

definition reportedPolicy :: "policy_overrides \<Rightarrow> product list \<Rightarrow> policy_report" where
  "reportedPolicy po updates =
     \<lparr> pol_targetWindowDays =
         orNumber (overrideTargetWindowDays po)
           (case updates of
              [] \<Rightarrow> 5
            | u # _ \<Rightarrow> leadTimeDays u + safetyStockDays u),
       pol_reviewHorizonDays = orNumber (reviewHorizonDays po) 14 \<rparr>"

definition buildSummary ::
  "policy_overrides \<Rightarrow> timestamp \<Rightarrow> result_item list \<Rightarrow> product list \<Rightarrow> summary" where
  "buildSummary po now results updates =
     \<lparr> checkedCount = length results,
       needsReplenishmentCount = length (filter r_needsReplenishment results),
       generatedAt = now,
       policy = reportedPolicy po updates,
       items = results \<rparr>"

text \<open>
  \<^verbatim>\<open>execute\<close> returns the summary or the error it throws, together with the calls it made
  on the ports, in order.
\<close>

definition execute ::
  "ports \<Rightarrow> policy_overrides \<Rightarrow> notification_options \<Rightarrow> (error + summary) \<times> port_call list"
where
  "execute ports po n =
     (let now = port_now ports
      in case port_listProducts ports of
           Inl e \<Rightarrow> (Inl (AdapterError e), [ListProducts])
         | Inr products \<Rightarrow>
             (case evaluateProducts po now products of
                Inl e \<Rightarrow> (Inl e, [ListProducts])
              | Inr (results, updates) \<Rightarrow>
                  (let saveOptions = \<lparr> updateQuantities = updateCalculatedQuantities po,
                                       updateAllFields = False \<rparr>;
                       saved = (if \<not> dryRun n then [SaveProducts updates saveOptions] else []);
                       saveError = (if \<not> dryRun n then port_saveProducts ports updates saveOptions
                                    else None)
                   in case saveError of
                        Some e \<Rightarrow> (Inl (AdapterError e), ListProducts # saved)
                      | None \<Rightarrow>
                          (let itemsToNotify = filter r_needsReplenishment results;
                               result = buildSummary po now results updates
                           in if enabled n \<and> length itemsToNotify > 0 then
                                (let emailMessage =
                                       buildEmailMessage itemsToNotify now
                                         (orString (subjectPrefix n) ''[Home Inventory]'') (dryRun n)
                                 in if \<not> dryRun n then
                                      (case port_send ports emailMessage of
                                         Some e \<Rightarrow>
                                           (Inl (AdapterError e),
                                            ListProducts # saved @ [Send emailMessage])
                                       | None \<Rightarrow>
                                           (Inr result, ListProducts # saved @ [Send emailMessage]))
                                    else (Inr result, ListProducts # saved))
                              else (Inr result, ListProducts # saved)))))"

subsection \<open>The source layer (\<^verbatim>\<open>SheetRowMapper\<close>, \<^verbatim>\<open>listProducts\<close>)\<close>

text \<open>
  A row of the sheet is the list of its cells as the read call returns them: strings,
  the empty cells at the end of a row left out. Destructuring gives \<^verbatim>\<open>undefined\<close> for a
  cell the row does not have.
\<close>

type_synonym sheet_row = "string list"

definition HEADER_ROW :: sheet_row where
  "HEADER_ROW =
     [''id'', ''name'', ''brand'', ''unit'', ''qty_remaining'',
      ''avg_daily_consumption'', ''avg_monthly_consumption'', ''last_replenished_at'',
      ''auto_subscription'', ''auto_subscription_note'', ''buy_place'', ''buy_url'',
      ''lead_time_days'', ''safety_stock_days'', ''min_order_qty'', ''pack_size'',
      ''needs_replenishment'', ''replenish_by_date'', ''recommended_order_qty'',
      ''reason'', ''last_check_at'', ''notes'']"

definition cell :: "sheet_row \<Rightarrow> nat \<Rightarrow> string option" where
  "cell row i = (if i < length row then Some (row ! i) else None)"

text \<open>\<^verbatim>\<open>!v\<close> for a cell: \<^verbatim>\<open>undefined\<close> and the empty string are falsy.\<close>

definition falsy :: "string option \<Rightarrow> bool" where
  "falsy v = (case v of None \<Rightarrow> True | Some s \<Rightarrow> s = [])"

text \<open>\<^verbatim>\<open>String(v)\<close> and \<^verbatim>\<open>v || null\<close>.\<close>

definition String :: "string option \<Rightarrow> string" where
  "String v = (case v of None \<Rightarrow> ''undefined'' | Some s \<Rightarrow> s)"

definition orNull :: "string option \<Rightarrow> string option" where
  "orNull v = (if falsy v then None else v)"

text \<open>
  \<^verbatim>\<open>trim\<close> and \<^verbatim>\<open>toLowerCase\<close> on the ASCII range: the white space characters are the
  space and the control characters 9 to 13, the upper-case letters are A to Z.
\<close>

definition isSpace :: "char \<Rightarrow> bool" where
  "isSpace c = (c \<in> set [CHR '' '', CHR 0x09, CHR 0x0A, CHR 0x0B, CHR 0x0C, CHR 0x0D])"

definition trim :: "string \<Rightarrow> string" where
  "trim s = rev (dropWhile isSpace (rev (dropWhile isSpace s)))"

definition lowerChar :: "char \<Rightarrow> char" where
  "lowerChar c =
     (if (65::nat) \<le> of_char c \<and> of_char c \<le> (90::nat) then char_of (of_char c + (32::nat))
      else c)"

definition toLowerCase :: "string \<Rightarrow> string" where
  "toLowerCase s = map lowerChar s"

text \<open>
  The two conversions of the runtime that the mapper calls on a cell: \<^verbatim>\<open>Number(value)\<close>,
  with \<open>None\<close> for \<^verbatim>\<open>NaN\<close>, and \<^verbatim>\<open>new Date(value)\<close>, with \<open>None\<close> for an invalid date.
  They are parameters of the model.
\<close>

record conversions =
  toNumber :: "string \<Rightarrow> real option"
  toDate :: "string \<Rightarrow> timestamp option"

text \<open>
  \<^verbatim>\<open>_parseNumber(value, defaultValue)\<close>, once for a default that is a number and once for
  the default \<^verbatim>\<open>null\<close>.
\<close>

definition parseNumber :: "conversions \<Rightarrow> string option \<Rightarrow> real \<Rightarrow> real" where
  "parseNumber js v defaultValue =
     (case v of
        None \<Rightarrow> defaultValue
      | Some s \<Rightarrow>
          if s = [] then defaultValue
          else (case toNumber js s of None \<Rightarrow> defaultValue | Some num \<Rightarrow> num))"

definition parseNumberOrNull :: "conversions \<Rightarrow> string option \<Rightarrow> real option" where
  "parseNumberOrNull js v =
     (case v of
        None \<Rightarrow> None
      | Some s \<Rightarrow>
          if s = [] then None
          else (case toNumber js s of None \<Rightarrow> None | Some num \<Rightarrow> Some num))"

definition parseBoolean :: "string option \<Rightarrow> bool" where
  "parseBoolean v =
     (case v of
        None \<Rightarrow> False
      | Some s \<Rightarrow> if s = [] then False else toLowerCase s = ''true'')"

definition parseDate :: "conversions \<Rightarrow> string option \<Rightarrow> timestamp option" where
  "parseDate js v = (case v of None \<Rightarrow> None | Some s \<Rightarrow> if s = [] then None else toDate js s)"

text \<open>
  \<^verbatim>\<open>rowToProduct\<close> returns \<^verbatim>\<open>null\<close> (\<open>Inr None\<close>) for an empty row, throws a
  \<^verbatim>\<open>ValidationError\<close> (\<open>Inl\<close>, the row index and the message) for a row it refuses, and
  returns the product otherwise. An error of the constructor is caught and thrown again
  as a \<^verbatim>\<open>ValidationError\<close>.
\<close>

definition rowToProduct ::
  "conversions \<Rightarrow> sheet_row \<Rightarrow> nat \<Rightarrow> (nat \<times> string) + product option" where
  "rowToProduct js row rowIndex =
     (if row = [] then Inr None
      else if falsy (cell row 0) \<or> falsy (cell row 1) \<or> falsy (cell row 3)
        then Inl (rowIndex, ''Missing required fields (id, name, unit)'')
      else
        (let autoSubscriptionObj =
               (if cell row 8 = Some ''TRUE''
                then Some \<lparr> active = True, details = orNull (cell row 9) \<rparr>
                else None);
             buyObj =
               (if \<not> falsy (cell row 10) \<or> \<not> falsy (cell row 11)
                then Some \<lparr> place = orNull (cell row 10), url = orNull (cell row 11) \<rparr>
                else None)
         in case Product_new
                  \<lparr> id_p = trim (String (cell row 0)),
                    name = trim (String (cell row 1)),
                    brand = (if falsy (cell row 2) then None else Some (trim (String (cell row 2)))),
                    unit = toLowerCase (trim (String (cell row 3))),
                    qtyRemaining = parseNumber js (cell row 4) 0,
                    avgDailyConsumption = parseNumberOrNull js (cell row 5),
                    avgMonthlyConsumption = parseNumberOrNull js (cell row 6),
                    lastReplenishedAt = parseDate js (cell row 7),
                    autoSubscription = autoSubscriptionObj,
                    buy = buyObj,
                    leadTimeDays = parseNumber js (cell row 12) 2,
                    safetyStockDays = parseNumber js (cell row 13) 3,
                    minOrderQty = parseNumberOrNull js (cell row 14),
                    packSize = parseNumberOrNull js (cell row 15),
                    needsReplenishment = parseBoolean (cell row 16),
                    replenishByDate = parseDate js (cell row 17),
                    recommendedOrderQty = parseNumberOrNull js (cell row 18),
                    reason = (if falsy (cell row 19) then None
                              else Some (trim (String (cell row 19)))),
                    lastCheckAt = parseDate js (cell row 20) \<rparr> of
              Inl msg \<Rightarrow> Inl (rowIndex, msg)
            | Inr p \<Rightarrow> Inr (Some p)))"

text \<open>
  The loop of \<^verbatim>\<open>listProducts\<close> over the data rows: the row at position \<open>i\<close> has the sheet
  index \<open>i + 2\<close>; a row that maps to \<^verbatim>\<open>null\<close> and a row whose mapping throws are both
  skipped (the second with a warning in the log).
\<close>

fun parseRows :: "conversions \<Rightarrow> sheet_row list \<Rightarrow> nat \<Rightarrow> product list" where
  "parseRows js [] i = []"
| "parseRows js (r # rs) i =
     (case rowToProduct js r (i + 2) of
        Inr (Some p) \<Rightarrow> p # parseRows js rs (Suc i)
      | Inr None \<Rightarrow> parseRows js rs (Suc i)
      | Inl e \<Rightarrow> parseRows js rs (Suc i))"

text \<open>
  \<^verbatim>\<open>listProducts\<close> on the outcome of the read call: the error of a failed call, or the
  rows of the sheet, the header row first.
\<close>

definition listProducts :: "conversions \<Rightarrow> string + sheet_row list \<Rightarrow> string + product list" where
  "listProducts js response =
     (case response of
        Inl e \<Rightarrow> Inl e
      | Inr rows \<Rightarrow>
          (case rows of
             [] \<Rightarrow> Inr []
           | headerRow # dataRows \<Rightarrow> Inr (parseRows js dataRows 0)))"

subsection \<open>Names for the statements\<close>

text \<open>
  What the constructor checks, as a predicate: every \<^verbatim>\<open>Product\<close> instance satisfies it.
\<close>

definition wellFormed :: "product \<Rightarrow> bool" where
  "wellFormed p =
     (id_p p \<noteq> [] \<and> name p \<noteq> [] \<and> unit p \<in> set [''count'', ''ml'', ''g'']
      \<and> qtyRemaining p \<ge> 0)"

text \<open>The result row and the updated product of one item in a run at \<open>now\<close>.\<close>

definition rowOf :: "policy_overrides \<Rightarrow> timestamp \<Rightarrow> product \<Rightarrow> result_item" where
  "rowOf po now p = resultItem p (computeDecision p (engineOptions po now))"

definition updateOf :: "policy_overrides \<Rightarrow> timestamp \<Rightarrow> product \<Rightarrow> product" where
  "updateOf po now p = applyDecision po now p (computeDecision p (engineOptions po now)) p"

text \<open>\<open>q\<close> is an integer multiple of \<open>ps\<close>.\<close>

definition multipleOf :: "real \<Rightarrow> real \<Rightarrow> bool" where
  "multipleOf q ps = (\<exists>k::int. q = real_of_int k * ps)"

subsection \<open>Example data\<close>

text \<open>
  The item of the worked examples: 250 ml recorded, 8 ml a day, lead time 2 days, safety
  stock 3 days, packs of 250 ml, no replenishment date and no subscription.
\<close>

definition shampoo :: product where
  "shampoo =
     \<lparr> id_p = ''abc-001'', name = ''Shampoo Repair'', brand = Some ''BrandZ'', unit = ''ml'',
       qtyRemaining = 250, avgDailyConsumption = Some 8, avgMonthlyConsumption = None,
       lastReplenishedAt = None, autoSubscription = None, buy = None,
       leadTimeDays = 2, safetyStockDays = 3, minOrderQty = None, packSize = Some 250,
       needsReplenishment = False, replenishByDate = None, recommendedOrderQty = None,
       reason = None, lastCheckAt = None \<rparr>"

definition defaultOptions :: "timestamp \<Rightarrow> decision_options" where
  "defaultOptions t =
     \<lparr> opt_now = t, opt_reviewHorizonDays = None, opt_overrideTargetWindowDays = None,
       opt_autoDecrementStock = None \<rparr>"

definition noOverrides :: policy_overrides where
  "noOverrides =
     \<lparr> reviewHorizonDays = None, overrideTargetWindowDays = None, autoDecrementStock = None,
       updateCalculatedQuantities = False \<rparr>"

text \<open>Ports that load the given products at the given instant and never fail.\<close>

definition workingPorts :: "timestamp \<Rightarrow> product list \<Rightarrow> ports" where
  "workingPorts t ps =
     \<lparr> port_now = t, port_listProducts = Inr ps,
       port_saveProducts = (\<lambda>us so. None), port_send = (\<lambda>m. None) \<rparr>"

text \<open>The second worked example: the same item with 30 ml left.\<close>

definition lowShampoo :: product where
  "lowShampoo = shampoo\<lparr>qtyRemaining := 30\<rparr>"

text \<open>
  An empty item without consumption data, with the order constraints of the sample row
  of the README (minimum order 1, packs of 250).
\<close>

definition depletedSample :: product where
  "depletedSample =
     shampoo\<lparr>qtyRemaining := 0, avgDailyConsumption := None, minOrderQty := Some 1\<rparr>"

text \<open>An empty item whose replenishment date lies one day after the evaluation at 0.\<close>

definition futureRestock :: product where
  "futureRestock = shampoo\<lparr>qtyRemaining := 0, lastReplenishedAt := Some 86400000\<rparr>"

text \<open>The same item with nothing left and no pack size.\<close>

definition looseShampoo :: product where
  "looseShampoo = shampoo\<lparr>qtyRemaining := 0, packSize := None\<rparr>"

text \<open>
  A batch of ten items of which exactly three need replenishment at instant 0 under the
  default policy: the two with 30 ml left and the empty one without consumption data.
\<close>

definition batch :: "product list" where
  "batch = [shampoo, lowShampoo, shampoo, shampoo, depletedSample,
            shampoo, shampoo, lowShampoo, shampoo, shampoo]"

text \<open>The notification options \<^verbatim>\<open>execute\<close> takes when none are given.\<close>

definition defaultNotification :: notification_options where
  "defaultNotification = \<lparr> enabled = True, dryRun = False, subjectPrefix = None \<rparr>"

text \<open>Overrides that set both the target window and the review horizon to 0.\<close>

definition zeroOverrides :: policy_overrides where
  "zeroOverrides =
     noOverrides\<lparr>reviewHorizonDays := Some 0, overrideTargetWindowDays := Some 0\<rparr>"

text \<open>
  A data row with id, name, an empty brand and a unit, and no cell for the quantity or for
  any later column.
\<close>

definition saltRow :: sheet_row where
  "saltRow = [''salt-001'', ''Sea Salt'', [], ''g'']"

section \<open>The decision engine\<close>

subsection \<open>Effective daily consumption and current stock\<close>

lemma getAvgDailyConsumption_positive:
  "getAvgDailyConsumption p = Some r \<Longrightarrow> r > 0"
  by (cases "avgDailyConsumption p"; cases "avgMonthlyConsumption p")
     (auto simp: getAvgDailyConsumption_def split: if_splits)

lemma is_positive_getAvgDailyConsumption:
  "is_positive (getAvgDailyConsumption p) = (getAvgDailyConsumption p \<noteq> None)"
  by (cases "getAvgDailyConsumption p") (auto dest: getAvgDailyConsumption_positive)

lemma calculateCurrentStock_no_rate:
  "getAvgDailyConsumption p = None \<Longrightarrow> calculateCurrentStock p now = qtyRemaining p"
  by (simp add: calculateCurrentStock_def split: option.splits)

lemma computeDecision_currentStock:
  "d_currentStock (computeDecision p options) =
     (if opt_autoDecrementStock options \<noteq> Some False
      then calculateCurrentStock p (opt_now options) else qtyRemaining p)"
  by (cases "opt_autoDecrementStock options")
     (auto simp: computeDecision_def Let_def split: option.splits)

lemma normal_case_needs:
  assumes "\<not> hasAutoSubscription p" and "getAvgDailyConsumption p = Some r"
  shows "d_needsReplenishment (computeDecision p options) =
           (d_currentStock (computeDecision p options) / r
              \<le> (case opt_overrideTargetWindowDays options of
                    Some w \<Rightarrow> w
                  | None \<Rightarrow> leadTimeDays p + safetyStockDays p))"
proof -
  have "r > 0" using assms(2) by (rule getAvgDailyConsumption_positive)
  with assms show ?thesis by (simp add: computeDecision_def Let_def)
qed

lemma lowShampoo_facts:
  "\<not> hasAutoSubscription lowShampoo"
  "getAvgDailyConsumption lowShampoo = Some 8"
  "qtyRemaining lowShampoo = 30"
  "avgDailyConsumption lowShampoo = Some 8"
  "lastReplenishedAt lowShampoo = None"
  "leadTimeDays lowShampoo = 2"
  "safetyStockDays lowShampoo = 3"
  "minOrderQty lowShampoo = None"
  "packSize lowShampoo = Some 250"
  by (simp_all add: lowShampoo_def shampoo_def hasAutoSubscription_def
      getAvgDailyConsumption_def)

lemma defaultOptions_facts:
  "opt_now (defaultOptions t) = t"
  "opt_reviewHorizonDays (defaultOptions t) = None"
  "opt_overrideTargetWindowDays (defaultOptions t) = None"
  "opt_autoDecrementStock (defaultOptions t) = None"
  by (simp_all add: defaultOptions_def)

lemma lowShampoo_stock:
  "d_currentStock (computeDecision lowShampoo (defaultOptions t)) = 30"
  by (simp add: computeDecision_currentStock defaultOptions_facts calculateCurrentStock_def
      lowShampoo_facts)

subsection \<open>The normal case\<close>

text \<open>
  Claim C1. For an item without an active auto-subscription whose effective daily
  consumption is a positive rate \<open>r\<close>: the days until depletion are the current stock
  divided by \<open>r\<close>; the target window is the override when one is given and lead time plus
  safety stock otherwise; the item needs replenishment exactly when the days until
  depletion are at most the target window. If it does, the reason is
  \<open>WITHIN_TARGET_WINDOW\<close> and the recommended quantity is the order constraints applied
  to the ceiling of \<open>max 0 ((targetWindowDays + reviewHorizonDays) * r - currentStock)\<close>,
  the review horizon being 14 days when none is given. If it does not, the reason is
  \<open>SUFFICIENT_STOCK\<close> and both the recommended quantity and the replenish-by date are
  null.
\<close>

theorem C1_normal_case:
  assumes "\<not> hasAutoSubscription p"
      and "getAvgDailyConsumption p = Some r"
  shows "let d = computeDecision p options;
             stock = d_currentStock d;
             targetWindowDays =
               (case opt_overrideTargetWindowDays options of
                  Some w \<Rightarrow> w
                | None \<Rightarrow> leadTimeDays p + safetyStockDays p);
             horizon = (case opt_reviewHorizonDays options of Some h \<Rightarrow> h | None \<Rightarrow> 14);
             rawTargetQty = real_of_int \<lceil>max 0 ((targetWindowDays + horizon) * r - stock)\<rceil>
         in d_daysUntilDepletion d = Some (stock / r)
          \<and> d_needsReplenishment d = (stock / r \<le> targetWindowDays)
          \<and> (if stock / r \<le> targetWindowDays
              then d_reason d = WITHIN_TARGET_WINDOW
                 \<and> d_recommendedOrderQty d = Some (applyOrderConstraints rawTargetQty p)
              else d_reason d = SUFFICIENT_STOCK
                 \<and> d_recommendedOrderQty d = None
                 \<and> d_replenishByDate d = None)"
proof -
  have pos: "r > 0" using assms(2) by (rule getAvgDailyConsumption_positive)
  show ?thesis
    using assms pos by (simp add: computeDecision_def Let_def)
qed

text \<open>
  The worked example with 30 ml left: 3.75 days until depletion, inside the window of 5
  days; the raw quantity 122 becomes one pack of 250.
\<close>

theorem C1_normal_case_witness:
  "\<not> hasAutoSubscription lowShampoo
   \<and> getAvgDailyConsumption lowShampoo = Some 8
   \<and> d_daysUntilDepletion (computeDecision lowShampoo (defaultOptions 0)) = Some 3.75
   \<and> d_needsReplenishment (computeDecision lowShampoo (defaultOptions 0))
   \<and> d_reason (computeDecision lowShampoo (defaultOptions 0)) = WITHIN_TARGET_WINDOW
   \<and> d_recommendedOrderQty (computeDecision lowShampoo (defaultOptions 0))
       = Some (applyOrderConstraints 122 lowShampoo)
   \<and> applyOrderConstraints 122 lowShampoo = 250"
proof -
  have pack: "applyOrderConstraints 122 lowShampoo = 250"
    by (simp add: applyOrderConstraints_def orNumber_def lowShampoo_facts)
  show ?thesis
    using C1_normal_case [OF lowShampoo_facts(1,2), of "defaultOptions 0"]
    by (simp add: Let_def lowShampoo_stock defaultOptions_facts lowShampoo_facts pack)
qed

subsection \<open>Projection of the stock\<close>

text \<open>
  Claim C2, as stated: with projection enabled, a replenishment date and a positive rate
  give \<open>currentStock = max 0 (quantityRemaining - rate * daysElapsed)\<close> for every recorded
  quantity, 0 included, and every \<open>now\<close>, instants before the replenishment date included.
  This fails for a recorded quantity of 0 evaluated one day before the replenishment
  date: the engine keeps the stock at 0, the formula gives 8.
\<close>

theorem C2_current_stock_counterexample:
  "opt_autoDecrementStock (defaultOptions 0) \<noteq> Some False
   \<and> lastReplenishedAt futureRestock = Some 86400000
   \<and> getAvgDailyConsumption futureRestock = Some 8
   \<and> d_currentStock (computeDecision futureRestock (defaultOptions 0)) = 0
   \<and> max 0 (qtyRemaining futureRestock - 8 * (real_of_int (0 - 86400000) / msPerDay)) = 8
   \<and> d_currentStock (computeDecision futureRestock (defaultOptions 0))
       \<noteq> max 0 (qtyRemaining futureRestock - 8 * (real_of_int (0 - 86400000) / msPerDay))"
  by (simp add: computeDecision_currentStock defaultOptions_def calculateCurrentStock_def
      getAvgDailyConsumption_def futureRestock_def shampoo_def msPerDay_def)

text \<open>
  Claim C2, amended. The projection applies when it is enabled, the item has a
  replenishment date and a positive effective daily rate, and the recorded quantity is
  not 0; then \<open>currentStock = max 0 (quantityRemaining - rate * daysElapsed)\<close>, for every
  \<open>now\<close>, instants before the replenishment date included. In every other case (no
  replenishment date, no positive rate, projection disabled, or a recorded quantity of
  0) the current stock is the recorded quantity.
\<close>

theorem C2_current_stock:
  "d_currentStock (computeDecision p options) =
     (case (lastReplenishedAt p, getAvgDailyConsumption p) of
        (Some replenishedAt, Some r) \<Rightarrow>
          if opt_autoDecrementStock options \<noteq> Some False \<and> qtyRemaining p \<noteq> 0
          then max 0 (qtyRemaining p
                      - r * (real_of_int (opt_now options - replenishedAt) / msPerDay))
          else qtyRemaining p
      | _ \<Rightarrow> qtyRemaining p)"
proof (cases "getAvgDailyConsumption p")
  case None
  then show ?thesis
    by (simp add: computeDecision_currentStock calculateCurrentStock_no_rate split: option.splits)
next
  case (Some r)
  then have "r > 0" by (rule getAvgDailyConsumption_positive)
  with Some show ?thesis
    by (simp add: computeDecision_currentStock calculateCurrentStock_def Let_def
        split: option.splits)
qed

text \<open>
  Ten days after a replenishment to 250 ml, at 8 ml a day, 170 ml are left; a recorded
  quantity of 0 stays 0.
\<close>

theorem C2_current_stock_witness:
  "d_currentStock (computeDecision
      (shampoo\<lparr>lastReplenishedAt := Some 0\<rparr>) (defaultOptions (10 * 86400000))) = 170
   \<and> d_currentStock (computeDecision futureRestock (defaultOptions 0)) = 0"
  using C2_current_stock [of "shampoo\<lparr>lastReplenishedAt := Some 0\<rparr>"
      "defaultOptions (10 * 86400000)"]
    C2_current_stock [of futureRestock "defaultOptions 0"]
  by (simp add: getAvgDailyConsumption_def futureRestock_def shampoo_def defaultOptions_def
      msPerDay_def)

subsection \<open>No usable consumption rate\<close>

text \<open>
  Claim C3. For an item without an active auto-subscription whose effective daily
  consumption is null or not positive, the current stock is the recorded quantity, and:
  if it is at most 0, the item needs replenishment, the reason is \<open>DEPLETED_OR_INVALID\<close>,
  the recommended quantity is \<open>max 1 (minOrderQty || packSize || 1)\<close>, which is at least
  1, and the replenish-by date and the days until depletion are null; otherwise the item
  does not need replenishment, the reason is \<open>INSUFFICIENT_CONSUMPTION_DATA\<close>, and the
  recommended quantity, the replenish-by date and the days until depletion are null.
\<close>

theorem C3_no_usable_rate:
  assumes "\<not> hasAutoSubscription p"
      and "\<not> is_positive (getAvgDailyConsumption p)"
  shows "let d = computeDecision p options
         in d_currentStock d = qtyRemaining p
          \<and> d_replenishByDate d = None
          \<and> d_daysUntilDepletion d = None
          \<and> (if d_currentStock d \<le> 0
              then d_needsReplenishment d
                 \<and> d_reason d = DEPLETED_OR_INVALID
                 \<and> d_recommendedOrderQty d
                     = Some (max 1 (orNumber (minOrderQty p) (orNumber (packSize p) 1)))
                 \<and> max 1 (orNumber (minOrderQty p) (orNumber (packSize p) 1)) \<ge> 1
              else \<not> d_needsReplenishment d
                 \<and> d_reason d = INSUFFICIENT_CONSUMPTION_DATA
                 \<and> d_recommendedOrderQty d = None)"
proof -
  have none: "getAvgDailyConsumption p = None"
    using assms(2) by (simp add: is_positive_getAvgDailyConsumption)
  have stock: "d_currentStock (computeDecision p options) = qtyRemaining p"
    by (simp add: computeDecision_currentStock calculateCurrentStock_no_rate none)
  show ?thesis
    unfolding Let_def stock
    using assms(1) none
    by (simp add: computeDecision_def Let_def calculateCurrentStock_no_rate)
qed

text \<open>
  The worked example: nothing left, no consumption rate, no minimum order and no pack
  size give \<open>DEPLETED_OR_INVALID\<close> and a recommended quantity of 1.
\<close>

theorem C3_no_usable_rate_witness:
  "\<not> hasAutoSubscription
        (shampoo\<lparr>qtyRemaining := 0, avgDailyConsumption := None, packSize := None\<rparr>)
   \<and> \<not> is_positive (getAvgDailyConsumption
          (shampoo\<lparr>qtyRemaining := 0, avgDailyConsumption := None, packSize := None\<rparr>))
   \<and> d_needsReplenishment (computeDecision
          (shampoo\<lparr>qtyRemaining := 0, avgDailyConsumption := None, packSize := None\<rparr>)
          (defaultOptions 0))
   \<and> d_reason (computeDecision
          (shampoo\<lparr>qtyRemaining := 0, avgDailyConsumption := None, packSize := None\<rparr>)
          (defaultOptions 0)) = DEPLETED_OR_INVALID
   \<and> d_recommendedOrderQty (computeDecision
          (shampoo\<lparr>qtyRemaining := 0, avgDailyConsumption := None, packSize := None\<rparr>)
          (defaultOptions 0)) = Some 1"
proof -
  let ?p = "shampoo\<lparr>qtyRemaining := 0, avgDailyConsumption := None, packSize := None\<rparr>"
  have h1: "\<not> hasAutoSubscription ?p"
    by (simp add: hasAutoSubscription_def shampoo_def)
  have h2: "\<not> is_positive (getAvgDailyConsumption ?p)"
    by (simp add: getAvgDailyConsumption_def shampoo_def)
  have fields: "qtyRemaining ?p = 0" "minOrderQty ?p = None" "packSize ?p = None"
    by (simp_all add: shampoo_def)
  show ?thesis
    using C3_no_usable_rate [OF h1 h2, of "defaultOptions 0"] h1 h2
    by (simp add: Let_def fields orNumber_def)
qed

subsection \<open>The auto-subscription short-circuit\<close>

text \<open>
  Claim C4. For an item whose auto-subscription is active, whatever its other fields and
  the options: it does not need replenishment, the reason is \<open>AUTO_SUBSCRIPTION_ACTIVE\<close>,
  the recommended quantity and the replenish-by date are null, and the days until
  depletion are the current stock divided by the effective daily rate when that rate is
  positive and null otherwise.
\<close>

theorem C4_auto_subscription:
  assumes "autoSubscription p = Some a" and "active a"
  shows "d_needsReplenishment (computeDecision p options) = False
       \<and> d_reason (computeDecision p options) = AUTO_SUBSCRIPTION_ACTIVE
       \<and> d_recommendedOrderQty (computeDecision p options) = None
       \<and> d_replenishByDate (computeDecision p options) = None
       \<and> d_daysUntilDepletion (computeDecision p options) =
           (if is_positive (getAvgDailyConsumption p)
            then map_option (\<lambda>r. d_currentStock (computeDecision p options) / r)
                   (getAvgDailyConsumption p)
            else None)"
proof -
  have auto: "hasAutoSubscription p"
    using assms by (simp add: hasAutoSubscription_def)
  show ?thesis
  proof (cases "getAvgDailyConsumption p")
    case None
    with auto show ?thesis by (simp add: computeDecision_def Let_def)
  next
    case (Some r)
    then have "r > 0" by (rule getAvgDailyConsumption_positive)
    with auto Some show ?thesis by (simp add: computeDecision_def Let_def)
  qed
qed

text \<open>
  An empty item with a positive rate would otherwise be inside its target window; with
  an active subscription it is not reordered, and its days until depletion are 0.
\<close>

theorem C4_auto_subscription_witness:
  "autoSubscription
      (shampoo\<lparr>qtyRemaining := 0, autoSubscription := Some \<lparr>active = True, details = None\<rparr>\<rparr>)
     = Some \<lparr>active = True, details = None\<rparr>
   \<and> active \<lparr>active = True, details = None\<rparr>
   \<and> d_needsReplenishment (computeDecision
        (shampoo\<lparr>qtyRemaining := 0, autoSubscription := Some \<lparr>active = True, details = None\<rparr>\<rparr>)
        (defaultOptions 0)) = False
   \<and> d_reason (computeDecision
        (shampoo\<lparr>qtyRemaining := 0, autoSubscription := Some \<lparr>active = True, details = None\<rparr>\<rparr>)
        (defaultOptions 0)) = AUTO_SUBSCRIPTION_ACTIVE
   \<and> d_daysUntilDepletion (computeDecision
        (shampoo\<lparr>qtyRemaining := 0, autoSubscription := Some \<lparr>active = True, details = None\<rparr>\<rparr>)
        (defaultOptions 0)) = Some 0"
  using C4_auto_subscription
    [of "shampoo\<lparr>qtyRemaining := 0,
                  autoSubscription := Some \<lparr>active = True, details = None\<rparr>\<rparr>"
        "\<lparr>active = True, details = None\<rparr>" "defaultOptions 0"]
  by (simp add: shampoo_def defaultOptions_def getAvgDailyConsumption_def
      computeDecision_currentStock calculateCurrentStock_def)

subsection \<open>Order constraints\<close>

lemma ceiling_pack_covers:
  fixes qty ps :: real
  assumes "ps > 1"
  shows "qty \<le> real_of_int \<lceil>qty / ps\<rceil> * ps"
proof -
  have "qty / ps \<le> real_of_int \<lceil>qty / ps\<rceil>" by (rule le_of_int_ceiling)
  moreover have "0 < ps" using assms by simp
  ultimately show ?thesis by (simp only: pos_divide_le_eq)
qed

lemma applyOrderConstraints_ge_base:
  "applyOrderConstraints q p \<ge> max q (orNumber (minOrderQty p) 1)"
proof (cases "packSize p")
  case None
  then show ?thesis by (simp add: applyOrderConstraints_def Let_def)
next
  case (Some ps)
  show ?thesis
  proof (cases "ps > 1")
    case False
    with Some show ?thesis by (simp add: applyOrderConstraints_def Let_def)
  next
    case True
    have "applyOrderConstraints q p
            = real_of_int \<lceil>max q (orNumber (minOrderQty p) 1) / ps\<rceil> * ps"
      using True Some by (simp add: applyOrderConstraints_def Let_def)
    with ceiling_pack_covers [OF True] show ?thesis by simp
  qed
qed

lemma applyOrderConstraints_min:
  assumes "minOrderQty p = Some m"
  shows "applyOrderConstraints q p \<ge> m"
proof -
  have "m \<le> orNumber (Some m) 1" by (simp add: orNumber_def)
  also have "\<dots> \<le> max q (orNumber (minOrderQty p) 1)" using assms by simp
  also have "\<dots> \<le> applyOrderConstraints q p" by (rule applyOrderConstraints_ge_base)
  finally show ?thesis .
qed

lemma applyOrderConstraints_multiple:
  "packSize p = Some ps \<Longrightarrow> ps > 1 \<Longrightarrow> multipleOf (applyOrderConstraints q p) ps"
  by (auto simp: applyOrderConstraints_def Let_def multipleOf_def)

text \<open>
  In the \<open>WITHIN_TARGET_WINDOW\<close> branch the recommended quantity goes through
  \<^verbatim>\<open>_applyOrderConstraints\<close>: it is at least the minimum order and a multiple of the pack
  size.
\<close>

lemma within_target_window_constraints:
  assumes "d_reason (computeDecision p options) = WITHIN_TARGET_WINDOW"
  shows "\<exists>q. d_recommendedOrderQty (computeDecision p options) = Some q
           \<and> (\<forall>m. minOrderQty p = Some m \<longrightarrow> q \<ge> m)
           \<and> (\<forall>ps. packSize p = Some ps \<and> ps > 1 \<longrightarrow> multipleOf q ps)"
  using assms
  by (auto simp: computeDecision_def Let_def applyOrderConstraints_min
      applyOrderConstraints_multiple split: if_splits option.splits)

text \<open>In both branches the recommended quantity is at least the minimum order.\<close>

lemma recommended_at_least_min:
  assumes "d_recommendedOrderQty (computeDecision p options) = Some q"
      and "minOrderQty p = Some m"
  shows "q \<ge> m"
  using assms
  by (auto simp: computeDecision_def Let_def applyOrderConstraints_min orNumber_def
      split: if_splits option.splits)

text \<open>
  Claim C5 says that a recommended quantity is at least the minimum order and a multiple
  of the pack size when that is more than 1, in the \<open>WITHIN_TARGET_WINDOW\<close> branch and in
  the \<open>DEPLETED_OR_INVALID\<close> branch. The first half holds in both branches and the second
  in the first branch (the two lemmas above). The \<open>DEPLETED_OR_INVALID\<close> branch does not
  call \<^verbatim>\<open>_applyOrderConstraints\<close>: for an empty item without consumption data, with a
  minimum order of 1 and packs of 250, it recommends 1, which is not a multiple of 250.
\<close>

theorem C5_depleted_ignores_pack_size:
  "minOrderQty depletedSample = Some 1
   \<and> packSize depletedSample = Some 250
   \<and> d_reason (computeDecision depletedSample (defaultOptions 0)) = DEPLETED_OR_INVALID
   \<and> d_recommendedOrderQty (computeDecision depletedSample (defaultOptions 0)) = Some 1
   \<and> \<not> multipleOf 1 250"
proof -
  have "\<not> multipleOf 1 250"
  proof
    assume "multipleOf 1 250"
    then obtain k :: int where "(1::real) = real_of_int k * 250"
      by (auto simp: multipleOf_def)
    then have "real_of_int (k * 250) = real_of_int 1" by simp
    then have "k * 250 = 1" by (simp only: of_int_eq_iff)
    then show False by presburger
  qed
  then show ?thesis
    by (simp add: depletedSample_def shampoo_def defaultOptions_def computeDecision_def Let_def
        hasAutoSubscription_def getAvgDailyConsumption_def calculateCurrentStock_def
        orNumber_def)
qed

subsection \<open>The replenish-by date\<close>

lemma toISODate_newDate:
  "t \<ge> 0 \<Longrightarrow> toISODate (newDate t) = \<lfloor>t / 86400000\<rfloor>"
proof -
  assume "t \<ge> 0"
  then have "toISODate (newDate t) = \<lfloor>t\<rfloor> div 86400000"
    by (simp add: toISODate_def newDate_def)
  also have "\<dots> = \<lfloor>t / real_of_int 86400000\<rfloor>"
    by (rule floor_divide_real_eq_div [symmetric]) simp
  finally show ?thesis by simp
qed

text \<open>One and three quarter days are 151200000 ms, a whole number of milliseconds.\<close>

lemma example_instant:
  fixes t :: int
  shows "newDate (real_of_int t + 1.75 * 86400000) = t + 151200000"
proof -
  have "real_of_int t + 1.75 * 86400000 = real_of_int (t + 151200000)" by simp
  then show ?thesis
    unfolding newDate_def by (simp only: floor_of_int ceiling_of_int if_cancel)
qed

text \<open>Before 06:00 UTC, adding a day and three quarters ends on the next day.\<close>

lemma example_next_day:
  fixes t :: int
  assumes "t mod 86400000 < 21600000"
  shows "toISODate (t + 151200000) = toISODate t + 1"
proof -
  have "t + 151200000 = (t div 86400000 + 1) * 86400000 + (t mod 86400000 + 64800000)"
    by (simp add: algebra_simps)
  moreover have "0 \<le> t mod 86400000 + 64800000" by simp
  moreover have "t mod 86400000 + 64800000 < 86400000" using assms by simp
  ultimately have "(t + 151200000) div 86400000 = t div 86400000 + 1"
    using div_pos_pos_trivial [of "t mod 86400000 + 64800000" 86400000]
    by (metis add.right_neutral div_mult_self3 zero_neq_numeral)
  then show ?thesis by (simp add: toISODate_def)
qed

text \<open>From 06:00 UTC on, it ends on the day after the next.\<close>

lemma example_second_day:
  fixes t :: int
  assumes "\<not> t mod 86400000 < 21600000"
  shows "toISODate (t + 151200000) = toISODate t + 2"
proof -
  have "t + 151200000 = (t div 86400000 + 2) * 86400000 + (t mod 86400000 - 21600000)"
    by (simp add: algebra_simps)
  moreover have "0 \<le> t mod 86400000 - 21600000" using assms by simp
  moreover have "t mod 86400000 - 21600000 < 86400000"
  proof -
    have "t mod 86400000 < 86400000" by simp
    then show ?thesis by linarith
  qed
  ultimately have "(t + 151200000) div 86400000 = t div 86400000 + 2"
    using div_pos_pos_trivial [of "t mod 86400000 - 21600000" 86400000]
    by (metis add.right_neutral div_mult_self3 zero_neq_numeral)
  then show ?thesis by (simp add: toISODate_def)
qed

text \<open>
  Claim C6, as stated: the Decision's replenish-by date is a calendar date without a time
  of day, and for the example item (30 left, 8 a day, lead time 2 days) it is \<open>now\<close> plus
  one day. Evaluated at 06:00 UTC of day 0, the example item gets the date of day 2, not
  of day 1; and the replenish-by value of the Decision itself is an instant with a time
  of day (evaluated at instant 0 it is 151200000 ms, 18:00 of day 1).
\<close>

theorem C6_replenish_by_date_counterexample:
  "\<not> hasAutoSubscription lowShampoo
   \<and> getAvgDailyConsumption lowShampoo = Some 8
   \<and> d_needsReplenishment (computeDecision lowShampoo (defaultOptions 21600000))
   \<and> toISODate (opt_now (defaultOptions 21600000)) = 0
   \<and> r_replenishByDate
        (resultItem lowShampoo (computeDecision lowShampoo (defaultOptions 21600000))) = Some 2
   \<and> r_replenishByDate
        (resultItem lowShampoo (computeDecision lowShampoo (defaultOptions 21600000)))
       \<noteq> Some (toISODate (opt_now (defaultOptions 21600000)) + 1)
   \<and> d_replenishByDate (computeDecision lowShampoo (defaultOptions 0)) = Some 151200000
   \<and> (151200000 :: int) mod 86400000 = 64800000"
proof -
  have needs: "d_needsReplenishment (computeDecision lowShampoo (defaultOptions t))" for t
    by (simp add: normal_case_needs [OF lowShampoo_facts(1,2)] lowShampoo_stock
        lowShampoo_facts defaultOptions_facts)
  have date: "d_replenishByDate (computeDecision lowShampoo (defaultOptions t))
                = Some (t + 151200000)" for t
  proof -
    have "d_replenishByDate (computeDecision lowShampoo (defaultOptions t))
            = Some (newDate (real_of_int t + 1.75 * 86400000))"
      using needs [of t]
      by (simp add: computeDecision_def Let_def lowShampoo_facts defaultOptions_facts
          calculateCurrentStock_def)
    then show ?thesis by (simp only: example_instant)
  qed
  show ?thesis
    by (simp add: needs date lowShampoo_facts defaultOptions_facts resultItem_def toISODate_def)
qed

text \<open>
  Claim C6, amended. In the normal case, for an item whose days until depletion are at
  most its target window, the engine decides that it needs replenishment and sets the
  Decision's replenish-by value to the instant \<open>now\<close> plus
  \<open>max 0 (daysUntilDepletion - leadTimeDays)\<close> days (a fraction of a millisecond
  dropped), time of day included; the result row reports the UTC calendar date of that
  instant, without a time of day, which for \<open>now\<close> at or after the epoch is the whole
  number of days in it. For the example item (30 left, 8 a day, lead time 2 days, no
  replenishment date) the instant is \<open>now\<close> plus 1.75 days, and the reported date is the
  day after the day of \<open>now\<close> when \<open>now\<close> is before 06:00 UTC (as at the start of day 0)
  and two days after it otherwise.
\<close>

theorem C6_replenish_by_date:
  assumes "\<not> hasAutoSubscription p"
      and "getAvgDailyConsumption p = Some r"
      and "(if opt_autoDecrementStock options \<noteq> Some False
            then calculateCurrentStock p (opt_now options) else qtyRemaining p) / r
           \<le> (case opt_overrideTargetWindowDays options of
                 Some w \<Rightarrow> w
               | None \<Rightarrow> leadTimeDays p + safetyStockDays p)"
  shows "let d = computeDecision p options;
             stock = (if opt_autoDecrementStock options \<noteq> Some False
                      then calculateCurrentStock p (opt_now options) else qtyRemaining p);
             daysToReplenish = max 0 (stock / r - leadTimeDays p);
             due = real_of_int (opt_now options) + daysToReplenish * 86400000
         in d_needsReplenishment d
          \<and> d_replenishByDate d = Some (newDate due)
          \<and> r_replenishByDate (resultItem p d) = Some (toISODate (newDate due))
          \<and> (opt_now options \<ge> 0 \<longrightarrow>
               r_replenishByDate (resultItem p d) = Some \<lfloor>due / 86400000\<rfloor>)
          \<and> (qtyRemaining p = 30 \<and> avgDailyConsumption p = Some 8 \<and> leadTimeDays p = 2
               \<and> lastReplenishedAt p = None \<longrightarrow>
               d_replenishByDate d = Some (opt_now options + 151200000)
               \<and> r_replenishByDate (resultItem p d)
                   = Some (toISODate (opt_now options)
                           + (if opt_now options mod 86400000 < 21600000 then 1 else 2)))"
proof -
  have pos: "r > 0" using assms(2) by (rule getAvgDailyConsumption_positive)
  let ?d = "computeDecision p options"
  let ?stock = "if opt_autoDecrementStock options \<noteq> Some False
                then calculateCurrentStock p (opt_now options) else qtyRemaining p"
  let ?due = "real_of_int (opt_now options)
               + max 0 (?stock / r - leadTimeDays p) * 86400000"
  have stock: "d_currentStock ?d = ?stock" by (rule computeDecision_currentStock)
  have needs: "d_needsReplenishment ?d"
    using assms(3) by (simp only: normal_case_needs [OF assms(1,2)] stock)
  have date: "d_replenishByDate ?d = Some (newDate ?due)"
  proof -
    have "d_replenishByDate ?d
            = Some (newDate (real_of_int (opt_now options)
                      + max 0 (d_currentStock ?d / r - leadTimeDays p) * 86400000))"
      using assms(1,2) pos needs by (simp add: computeDecision_def Let_def split: if_splits)
    then show ?thesis by (simp only: stock)
  qed
  have row: "r_replenishByDate (resultItem p ?d) = Some (toISODate (newDate ?due))"
    by (simp add: resultItem_def date)
  have epoch: "opt_now options \<ge> 0 \<Longrightarrow> toISODate (newDate ?due) = \<lfloor>?due / 86400000\<rfloor>"
    by (rule toISODate_newDate) simp
  have epoch_row: "r_replenishByDate (resultItem p ?d) = Some \<lfloor>?due / 86400000\<rfloor>"
    if "opt_now options \<ge> 0"
    using epoch [OF that] row by simp
  have example: "d_replenishByDate ?d = Some (opt_now options + 151200000)
      \<and> r_replenishByDate (resultItem p ?d)
          = Some (toISODate (opt_now options)
                  + (if opt_now options mod 86400000 < 21600000 then 1 else 2))"
    if ex: "qtyRemaining p = 30 \<and> avgDailyConsumption p = Some 8 \<and> leadTimeDays p = 2
      \<and> lastReplenishedAt p = None"
  proof -
    have "getAvgDailyConsumption p = Some 8"
      using ex by (simp add: getAvgDailyConsumption_def)
    with assms(2) have r: "r = 8" by simp
    have st: "?stock = 30"
      using ex by (simp add: calculateCurrentStock_def)
    have "max 0 (?stock / r - leadTimeDays p) = 1.75"
      unfolding st using ex by (simp add: r)
    then have instant: "newDate ?due = opt_now options + 151200000"
      by (simp only: example_instant)
    have "toISODate (opt_now options + 151200000)
            = toISODate (opt_now options)
              + (if opt_now options mod 86400000 < 21600000 then 1 else 2)"
    proof (cases "opt_now options mod 86400000 < 21600000")
      case True
      with example_next_day [OF True] show ?thesis by simp
    next
      case False
      with example_second_day [OF False] show ?thesis by simp
    qed
    with instant date row show ?thesis by (simp only:)
  qed
  from needs date row epoch_row example show ?thesis
    unfolding Let_def by blast
qed

text \<open>
  The example item at instant 0, the start of day 0: the replenish-by instant is
  151200000 ms and the reported date is day 1. At 06:00 of day 0 the reported date is
  day 2.
\<close>

theorem C6_replenish_by_date_witness:
  "\<not> hasAutoSubscription lowShampoo
   \<and> getAvgDailyConsumption lowShampoo = Some 8
   \<and> d_needsReplenishment (computeDecision lowShampoo (defaultOptions 0))
   \<and> d_replenishByDate (computeDecision lowShampoo (defaultOptions 0)) = Some 151200000
   \<and> r_replenishByDate (resultItem lowShampoo (computeDecision lowShampoo (defaultOptions 0)))
       = Some 1
   \<and> r_replenishByDate
        (resultItem lowShampoo (computeDecision lowShampoo (defaultOptions 21600000))) = Some 2"
proof -
  have inside: "(if opt_autoDecrementStock (defaultOptions t) \<noteq> Some False
            then calculateCurrentStock lowShampoo (opt_now (defaultOptions t))
            else qtyRemaining lowShampoo) / 8
           \<le> (case opt_overrideTargetWindowDays (defaultOptions t) of
                 Some w \<Rightarrow> w
               | None \<Rightarrow> leadTimeDays lowShampoo + safetyStockDays lowShampoo)" for t
    by (simp add: defaultOptions_facts calculateCurrentStock_def lowShampoo_facts)
  have fields: "qtyRemaining lowShampoo = 30 \<and> avgDailyConsumption lowShampoo = Some 8
      \<and> leadTimeDays lowShampoo = 2 \<and> lastReplenishedAt lowShampoo = None"
    by (simp add: lowShampoo_facts)
  have days: "toISODate 0 = 0" "toISODate 21600000 = 0" "(21600000::int) mod 86400000 = 21600000"
    by (simp_all add: toISODate_def)
  note at0 = C6_replenish_by_date [OF lowShampoo_facts(1,2) inside, of 0, unfolded Let_def]
  note at6 = C6_replenish_by_date [OF lowShampoo_facts(1,2) inside, of 21600000, unfolded Let_def]
  from at0 have needs: "d_needsReplenishment (computeDecision lowShampoo (defaultOptions 0))"
    by (rule conjunct1)
  from at0 fields
  have "d_replenishByDate (computeDecision lowShampoo (defaultOptions 0))
          = Some (opt_now (defaultOptions 0) + 151200000)
        \<and> r_replenishByDate (resultItem lowShampoo (computeDecision lowShampoo (defaultOptions 0)))
          = Some (toISODate (opt_now (defaultOptions 0))
                  + (if opt_now (defaultOptions 0) mod 86400000 < 21600000 then 1 else 2))"
    by blast
  then have a: "d_replenishByDate (computeDecision lowShampoo (defaultOptions 0)) = Some 151200000
      \<and> r_replenishByDate (resultItem lowShampoo (computeDecision lowShampoo (defaultOptions 0)))
          = Some 1"
    by (simp add: defaultOptions_facts days)
  from at6 fields
  have "r_replenishByDate
          (resultItem lowShampoo (computeDecision lowShampoo (defaultOptions 21600000)))
          = Some (toISODate (opt_now (defaultOptions 21600000))
                  + (if opt_now (defaultOptions 21600000) mod 86400000 < 21600000
                     then 1 else 2))"
    by blast
  then have b: "r_replenishByDate
        (resultItem lowShampoo (computeDecision lowShampoo (defaultOptions 21600000))) = Some 2"
    by (simp add: defaultOptions_facts days)
  from needs a b show ?thesis by (simp add: lowShampoo_facts)
qed

section \<open>The orchestrator\<close>

subsection \<open>What a run returns\<close>

lemma Product_new_wellFormed:
  "wellFormed p \<Longrightarrow> Product_new p = Inr p"
  by (auto simp: wellFormed_def Product_new_def)

lemma Product_new_Inr:
  "Product_new f = Inr p \<Longrightarrow> p = f \<and> wellFormed f"
  by (auto simp: wellFormed_def Product_new_def split: if_splits)

lemma updatedProduct_wellFormed:
  "wellFormed p \<Longrightarrow> updatedProduct po now p d = Inr (applyDecision po now p d p)"
  by (simp add: updatedProduct_def clone_def Product_new_wellFormed)

lemma evaluateProducts_wellFormed:
  "\<forall>p\<in>set ps. wellFormed p \<Longrightarrow>
     evaluateProducts po now ps = Inr (map (rowOf po now) ps, map (updateOf po now) ps)"
proof (induction ps)
  case Nil
  show ?case by simp
next
  case (Cons p ps)
  then have "wellFormed p" and "\<forall>q\<in>set ps. wellFormed q" by simp_all
  with Cons.IH show ?case
    by (simp add: Let_def updatedProduct_wellFormed rowOf_def updateOf_def)
qed

lemma needy_rows:
  "filter r_needsReplenishment (map (rowOf po now) ps) =
     map (rowOf po now)
       (filter (\<lambda>p. d_needsReplenishment (computeDecision p (engineOptions po now))) ps)"
  by (induction ps) (simp_all add: rowOf_def resultItem_def)

lemma execute_dry_run:
  assumes "port_listProducts ports = Inr products"
      and "\<forall>p\<in>set products. wellFormed p"
      and "dryRun n"
  shows "execute ports po n =
           (Inr (buildSummary po (port_now ports) (map (rowOf po (port_now ports)) products)
                   (map (updateOf po (port_now ports)) products)),
            [ListProducts])"
  using assms by (simp add: execute_def Let_def evaluateProducts_wellFormed)

lemma execute_saved:
  assumes "port_listProducts ports = Inr products"
      and "\<forall>p\<in>set products. wellFormed p"
      and "\<not> dryRun n"
      and "\<forall>us so. port_saveProducts ports us so = None"
      and "\<forall>m. port_send ports m = None"
  shows "execute ports po n =
           (let now = port_now ports;
                rows = map (rowOf po now) products;
                updates = map (updateOf po now) products;
                toNotify = filter r_needsReplenishment rows
            in (Inr (buildSummary po now rows updates),
                ListProducts
                # SaveProducts updates
                    \<lparr> updateQuantities = updateCalculatedQuantities po, updateAllFields = False \<rparr>
                # (if enabled n \<and> length toNotify > 0
                   then [Send (buildEmailMessage toNotify now
                                 (orString (subjectPrefix n) ''[Home Inventory]'') False)]
                   else [])))"
  using assms by (simp add: execute_def Let_def evaluateProducts_wellFormed)

lemma execute_trace_dry_run:
  "dryRun n \<Longrightarrow> saves (snd (execute ports po n)) = [] \<and> sends (snd (execute ports po n)) = []"
  by (simp add: execute_def Let_def split: sum.splits prod.splits option.splits)

text \<open>Whatever the ports do, a run sends at most one message and saves at most once.\<close>

lemma execute_sends_at_most_once:
  "length (sends (snd (execute ports po n))) \<le> 1"
  by (simp add: execute_def Let_def split: sum.splits prod.splits option.splits)

lemma execute_saves_at_most_once:
  "length (saves (snd (execute ports po n))) \<le> 1"
  by (simp add: execute_def Let_def split: sum.splits prod.splits option.splits)

lemma batch_wellFormed: "\<forall>p\<in>set batch. wellFormed p"
  by (simp add: batch_def wellFormed_def shampoo_def lowShampoo_def depletedSample_def)

lemma workingPorts_facts:
  "port_now (workingPorts t ps) = t"
  "port_listProducts (workingPorts t ps) = Inr ps"
  "\<forall>us so. port_saveProducts (workingPorts t ps) us so = None"
  "\<forall>m. port_send (workingPorts t ps) m = None"
  by (simp_all add: workingPorts_def)

lemma batch_needs:
  "\<not> r_needsReplenishment (rowOf noOverrides 0 shampoo)"
  "r_needsReplenishment (rowOf noOverrides 0 lowShampoo)"
  "r_needsReplenishment (rowOf noOverrides 0 depletedSample)"
proof -
  have opts: "opt_overrideTargetWindowDays (engineOptions noOverrides 0) = None"
    "opt_now (engineOptions noOverrides 0) = 0"
    by (simp_all add: engineOptions_def noOverrides_def)
  have s1: "\<not> hasAutoSubscription shampoo" "getAvgDailyConsumption shampoo = Some 8"
    "lastReplenishedAt shampoo = None" "qtyRemaining shampoo = 250"
    "leadTimeDays shampoo = 2" "safetyStockDays shampoo = 3"
    by (simp_all add: shampoo_def hasAutoSubscription_def getAvgDailyConsumption_def)
  have st1: "d_currentStock (computeDecision shampoo (engineOptions noOverrides 0)) = 250"
    by (simp add: computeDecision_currentStock calculateCurrentStock_def s1)
  show "\<not> r_needsReplenishment (rowOf noOverrides 0 shampoo)"
    by (simp add: rowOf_def resultItem_def normal_case_needs [OF s1(1,2)] st1 opts s1)
  have st2: "d_currentStock (computeDecision lowShampoo (engineOptions noOverrides 0)) = 30"
    by (simp add: computeDecision_currentStock calculateCurrentStock_def lowShampoo_facts)
  show "r_needsReplenishment (rowOf noOverrides 0 lowShampoo)"
    by (simp add: rowOf_def resultItem_def normal_case_needs [OF lowShampoo_facts(1,2)] st2 opts
        lowShampoo_facts)
  have d: "\<not> hasAutoSubscription depletedSample" "getAvgDailyConsumption depletedSample = None"
    "qtyRemaining depletedSample = 0"
    by (simp_all add: depletedSample_def shampoo_def hasAutoSubscription_def
        getAvgDailyConsumption_def)
  show "r_needsReplenishment (rowOf noOverrides 0 depletedSample)"
    by (simp add: rowOf_def resultItem_def computeDecision_def Let_def d
        calculateCurrentStock_no_rate)
qed

subsection \<open>One notification for the batch\<close>

text \<open>
  Claim C7. Take a run with notification enabled in which the inventory source returns
  the products, all of them \<^verbatim>\<open>Product\<close> instances, and in which the calls made on the
  persistence and notification ports resolve (a dry run makes none). The rows to notify
  are the rows of exactly the products whose decision needs replenishment. The run
  returns a summary whose checked count is the number of products, whose count of items
  needing replenishment is the number of rows to notify, and whose items are all the
  rows. If there is a row to notify and the run is not a dry run, the notification port
  is called exactly once, with the message built from exactly the rows to notify; if
  there is none (or the run is a dry run), it is not called.
\<close>

theorem C7_single_notification:
  assumes "port_listProducts ports = Inr products"
      and "\<forall>p\<in>set products. wellFormed p"
      and "enabled n"
      and "dryRun n \<or> (\<forall>us so. port_saveProducts ports us so = None)"
      and "dryRun n \<or> (\<forall>m. port_send ports m = None)"
  shows "let now = port_now ports;
             rows = map (rowOf po now) products;
             toNotify = filter r_needsReplenishment rows;
             run = execute ports po n
         in toNotify =
              map (rowOf po now)
                (filter (\<lambda>p. d_needsReplenishment (computeDecision p (engineOptions po now)))
                   products)
          \<and> (\<exists>s. fst run = Inr s
                 \<and> checkedCount s = length products
                 \<and> needsReplenishmentCount s = length toNotify
                 \<and> items s = rows)
          \<and> sends (snd run) =
              (if length toNotify > 0 \<and> \<not> dryRun n
               then [buildEmailMessage toNotify now
                       (orString (subjectPrefix n) ''[Home Inventory]'') (dryRun n)]
               else [])
          \<and> (\<forall>m\<in>set (sends (snd run)). msg_items m = toNotify)"
proof (cases "dryRun n")
  case True
  from execute_dry_run [OF assms(1,2) True, of po]
  show ?thesis
    by (simp add: Let_def needy_rows buildSummary_def True)
next
  case False
  with assms(4,5) have ok: "\<forall>us so. port_saveProducts ports us so = None"
    "\<forall>m. port_send ports m = None" by simp_all
  from execute_saved [OF assms(1,2) False ok, of po] assms(3) False
  show ?thesis
    by (simp add: Let_def needy_rows buildSummary_def buildEmailMessage_def)
qed

text \<open>
  The batch of ten with three items to reorder: the summary counts 10 and 3, and the one
  message sent holds the three rows.
\<close>

theorem C7_single_notification_witness:
  "port_listProducts (workingPorts 0 batch) = Inr batch
   \<and> enabled defaultNotification \<and> \<not> dryRun defaultNotification
   \<and> length batch = 10
   \<and> (\<exists>s. fst (execute (workingPorts 0 batch) noOverrides defaultNotification) = Inr s
          \<and> checkedCount s = 10 \<and> needsReplenishmentCount s = 3)
   \<and> map msg_items (sends (snd (execute (workingPorts 0 batch) noOverrides defaultNotification)))
       = [[rowOf noOverrides 0 lowShampoo, rowOf noOverrides 0 depletedSample,
           rowOf noOverrides 0 lowShampoo]]"
proof -
  have n: "enabled defaultNotification" "\<not> dryRun defaultNotification"
    by (simp_all add: defaultNotification_def)
  have rows: "filter r_needsReplenishment (map (rowOf noOverrides 0) batch)
      = [rowOf noOverrides 0 lowShampoo, rowOf noOverrides 0 depletedSample,
         rowOf noOverrides 0 lowShampoo]"
    by (simp add: batch_def batch_needs)
  have len: "length batch = 10" by (simp add: batch_def)
  have ok: "dryRun defaultNotification
              \<or> (\<forall>us so. port_saveProducts (workingPorts 0 batch) us so = None)"
    "dryRun defaultNotification \<or> (\<forall>m. port_send (workingPorts 0 batch) m = None)"
    by (simp_all add: workingPorts_facts)
  from C7_single_notification [OF workingPorts_facts(2) batch_wellFormed n(1) ok,
      of noOverrides, unfolded Let_def workingPorts_facts(1) rows]
  have summary: "\<exists>s. fst (execute (workingPorts 0 batch) noOverrides defaultNotification) = Inr s
                   \<and> checkedCount s = length batch \<and> needsReplenishmentCount s = 3"
    and sent: "sends (snd (execute (workingPorts 0 batch) noOverrides defaultNotification))
                 = [buildEmailMessage
                      [rowOf noOverrides 0 lowShampoo, rowOf noOverrides 0 depletedSample,
                       rowOf noOverrides 0 lowShampoo]
                      0 (orString (subjectPrefix defaultNotification) ''[Home Inventory]'')
                      (dryRun defaultNotification)]"
    by (auto simp: n)
  from summary sent show ?thesis
    by (simp add: len n workingPorts_facts(2) buildEmailMessage_def)
qed

subsection \<open>Dry run\<close>

text \<open>
  Claim C8. A dry run never calls the persistence port and never calls the notification
  port, whatever the ports would do. When the inventory source returns the products
  (all \<^verbatim>\<open>Product\<close> instances), it still returns a summary with one row per product, the
  counts, the instant of the run and the policy values; and a run that differs only in
  not being a dry run, and whose calls on the two ports resolve, returns the same summary.
\<close>

theorem C8_dry_run:
  assumes "dryRun n"
  shows "let now = port_now ports;
             run = execute ports po n
         in saves (snd run) = []
          \<and> sends (snd run) = []
          \<and> (port_listProducts ports = Inr products \<and> (\<forall>p\<in>set products. wellFormed p) \<longrightarrow>
               (\<exists>s. fst run = Inr s
                  \<and> items s = map (rowOf po now) products
                  \<and> checkedCount s = length products
                  \<and> needsReplenishmentCount s
                      = length (filter r_needsReplenishment (map (rowOf po now) products))
                  \<and> generatedAt s = now
                  \<and> policy s = reportedPolicy po (map (updateOf po now) products)
                  \<and> ((\<forall>us so. port_saveProducts ports us so = None)
                       \<and> (\<forall>m. port_send ports m = None) \<longrightarrow>
                      fst (execute ports po (n\<lparr>dryRun := False\<rparr>)) = Inr s)))"
proof -
  have quiet: "saves (snd (execute ports po n)) = []" "sends (snd (execute ports po n)) = []"
    using execute_trace_dry_run [OF assms] by simp_all
  have full: "\<exists>s. fst (execute ports po n) = Inr s
                \<and> items s = map (rowOf po (port_now ports)) products
                \<and> checkedCount s = length products
                \<and> needsReplenishmentCount s
                    = length (filter r_needsReplenishment
                        (map (rowOf po (port_now ports)) products))
                \<and> generatedAt s = port_now ports
                \<and> policy s = reportedPolicy po (map (updateOf po (port_now ports)) products)
                \<and> ((\<forall>us so. port_saveProducts ports us so = None)
                     \<and> (\<forall>m. port_send ports m = None) \<longrightarrow>
                    fst (execute ports po (n\<lparr>dryRun := False\<rparr>)) = Inr s)"
    if load: "port_listProducts ports = Inr products"
      and wf: "\<forall>p\<in>set products. wellFormed p"
  proof -
    let ?s = "buildSummary po (port_now ports) (map (rowOf po (port_now ports)) products)
                (map (updateOf po (port_now ports)) products)"
    have dry: "fst (execute ports po n) = Inr ?s"
      by (simp add: execute_dry_run [OF load wf assms])
    have wet: "fst (execute ports po (n\<lparr>dryRun := False\<rparr>)) = Inr ?s"
      if "\<forall>us so. port_saveProducts ports us so = None" and "\<forall>m. port_send ports m = None"
      using execute_saved [OF load wf _ that, of "n\<lparr>dryRun := False\<rparr>" po]
      by (simp add: Let_def)
    from dry wet show ?thesis
      by (intro exI [of _ ?s]) (simp add: buildSummary_def)
  qed
  from quiet full show ?thesis by (simp add: Let_def)
qed

text \<open>
  The batch of ten as a dry run: no call on either port, ten rows checked, and the
  summary of the run that is not a dry run.
\<close>

theorem C8_dry_run_witness:
  "dryRun (defaultNotification\<lparr>dryRun := True\<rparr>)
   \<and> port_listProducts (workingPorts 0 batch) = Inr batch
   \<and> saves (snd (execute (workingPorts 0 batch) noOverrides
                    (defaultNotification\<lparr>dryRun := True\<rparr>))) = []
   \<and> sends (snd (execute (workingPorts 0 batch) noOverrides
                    (defaultNotification\<lparr>dryRun := True\<rparr>))) = []
   \<and> (\<exists>s. fst (execute (workingPorts 0 batch) noOverrides
                  (defaultNotification\<lparr>dryRun := True\<rparr>)) = Inr s
          \<and> checkedCount s = 10
          \<and> fst (execute (workingPorts 0 batch) noOverrides defaultNotification) = Inr s)"
proof -
  have dry: "dryRun (defaultNotification\<lparr>dryRun := True\<rparr>)" by simp
  have same: "defaultNotification\<lparr>dryRun := True, dryRun := False\<rparr> = defaultNotification"
    by (simp add: defaultNotification_def)
  have len: "length batch = 10" by (simp add: batch_def)
  from C8_dry_run [OF dry, of "workingPorts 0 batch" noOverrides batch,
      unfolded Let_def workingPorts_facts(1)]
  show ?thesis
    using batch_wellFormed workingPorts_facts(2,3,4) [of 0 batch]
    by (auto simp: same len)
qed

subsection \<open>The policy values of the summary\<close>

lemma orNumber_zero: "orNumber (Some 0) d = d"
  by (simp add: orNumber_def)

lemma engineOptions_stock:
  "d_currentStock (computeDecision p (engineOptions po now)) =
     (if autoDecrementStock po \<noteq> Some False then calculateCurrentStock p now
      else qtyRemaining p)"
  by (simp add: computeDecision_currentStock engineOptions_def)

lemma normal_case_recommended:
  assumes "\<not> hasAutoSubscription p" and "getAvgDailyConsumption p = Some r"
  shows "d_recommendedOrderQty (computeDecision p options) =
           (let stock = d_currentStock (computeDecision p options);
                w = (case opt_overrideTargetWindowDays options of
                       Some v \<Rightarrow> v
                     | None \<Rightarrow> leadTimeDays p + safetyStockDays p);
                h = (case opt_reviewHorizonDays options of Some h \<Rightarrow> h | None \<Rightarrow> 14)
            in if stock / r \<le> w
               then Some (applyOrderConstraints
                            (real_of_int \<lceil>max 0 ((w + h) * r - stock)\<rceil>) p)
               else None)"
proof -
  have "r > 0" using assms(2) by (rule getAvgDailyConsumption_positive)
  with assms show ?thesis by (simp add: computeDecision_def Let_def)
qed

text \<open>
  Claim C10. Take a run on a non-empty list of products that returns a summary (the
  source returns the products, all \<^verbatim>\<open>Product\<close> instances, and the calls on the other
  ports resolve, or the run is a dry run). If the target-window override is 0, the engine
  decides every item of the normal case against a window of 0 days: it needs
  replenishment exactly when its current stock (projected, or recorded when projection
  is off) divided by its rate is at most 0; but the summary reports the lead time plus
  the safety stock of the first product as the target window. If the review-horizon
  override is 0, the engine sizes every order of the normal case with a horizon of 0
  days: for an item inside its target window the recommended quantity is the order
  constraints applied to the ceiling of \<open>max 0 (targetWindowDays * rate - currentStock)\<close>,
  and null outside it; but the summary reports a horizon of 14.
\<close>

theorem C10_reported_policy:
  assumes "port_listProducts ports = Inr (first # others)"
      and "\<forall>p\<in>set (first # others). wellFormed p"
      and "dryRun n \<or> (\<forall>us so. port_saveProducts ports us so = None)"
      and "dryRun n \<or> (\<forall>m. port_send ports m = None)"
  shows "\<exists>s. fst (execute ports po n) = Inr s
           \<and> items s =
               map (\<lambda>p. resultItem p (computeDecision p (engineOptions po (port_now ports))))
                 (first # others)
           \<and> (overrideTargetWindowDays po = Some 0 \<longrightarrow>
                pol_targetWindowDays (policy s) = leadTimeDays first + safetyStockDays first
                \<and> (\<forall>p r. \<not> hasAutoSubscription p \<and> getAvgDailyConsumption p = Some r \<longrightarrow>
                      d_needsReplenishment (computeDecision p (engineOptions po (port_now ports)))
                      = ((if autoDecrementStock po \<noteq> Some False
                          then calculateCurrentStock p (port_now ports)
                          else qtyRemaining p) / r \<le> 0)))
           \<and> (reviewHorizonDays po = Some 0 \<longrightarrow>
                pol_reviewHorizonDays (policy s) = 14
                \<and> (\<forall>p r. \<not> hasAutoSubscription p \<and> getAvgDailyConsumption p = Some r \<longrightarrow>
                      d_recommendedOrderQty (computeDecision p (engineOptions po (port_now ports)))
                      = (let stock = (if autoDecrementStock po \<noteq> Some False
                                      then calculateCurrentStock p (port_now ports)
                                      else qtyRemaining p);
                             w = (case overrideTargetWindowDays po of
                                    Some v \<Rightarrow> v
                                  | None \<Rightarrow> leadTimeDays p + safetyStockDays p)
                         in if stock / r \<le> w
                            then Some (applyOrderConstraints
                                         (real_of_int \<lceil>max 0 (w * r - stock)\<rceil>) p)
                            else None)))"
proof -
  let ?now = "port_now ports"
  let ?s = "buildSummary po ?now (map (rowOf po ?now) (first # others))
              (map (updateOf po ?now) (first # others))"
  have run: "fst (execute ports po n) = Inr ?s"
  proof (cases "dryRun n")
    case True
    then show ?thesis by (simp add: execute_dry_run [OF assms(1,2)])
  next
    case False
    with assms(3,4) have ok: "\<forall>us so. port_saveProducts ports us so = None"
      "\<forall>m. port_send ports m = None" by simp_all
    show ?thesis
      using execute_saved [OF assms(1,2) False ok, of po] by (simp add: Let_def)
  qed
  have rows: "items ?s =
      map (\<lambda>p. resultItem p (computeDecision p (engineOptions po ?now))) (first # others)"
    by (simp add: buildSummary_def rowOf_def)
  have lead: "leadTimeDays (updateOf po ?now first) = leadTimeDays first"
    "safetyStockDays (updateOf po ?now first) = safetyStockDays first"
    by (simp_all add: updateOf_def applyDecision_def Let_def)
  have window: "pol_targetWindowDays (policy ?s) = leadTimeDays first + safetyStockDays first"
    if "overrideTargetWindowDays po = Some 0"
    using that by (simp add: buildSummary_def reportedPolicy_def orNumber_zero lead)
  have engine_window:
    "d_needsReplenishment (computeDecision p (engineOptions po ?now))
       = ((if autoDecrementStock po \<noteq> Some False then calculateCurrentStock p ?now
           else qtyRemaining p) / r \<le> 0)"
    if "overrideTargetWindowDays po = Some 0" "\<not> hasAutoSubscription p"
      "getAvgDailyConsumption p = Some r" for p r
  proof -
    have "opt_overrideTargetWindowDays (engineOptions po ?now) = Some 0"
      using that(1) by (simp add: engineOptions_def)
    then show ?thesis
      by (simp add: normal_case_needs [OF that(2,3)] engineOptions_stock)
  qed
  have horizon: "pol_reviewHorizonDays (policy ?s) = 14"
    if "reviewHorizonDays po = Some 0"
    using that by (simp add: buildSummary_def reportedPolicy_def orNumber_zero)
  have engine_horizon:
    "d_recommendedOrderQty (computeDecision p (engineOptions po ?now))
       = (let stock = (if autoDecrementStock po \<noteq> Some False
                       then calculateCurrentStock p ?now else qtyRemaining p);
              w = (case overrideTargetWindowDays po of
                     Some v \<Rightarrow> v
                   | None \<Rightarrow> leadTimeDays p + safetyStockDays p)
          in if stock / r \<le> w
             then Some (applyOrderConstraints (real_of_int \<lceil>max 0 (w * r - stock)\<rceil>) p)
             else None)"
    if "reviewHorizonDays po = Some 0" "\<not> hasAutoSubscription p"
      "getAvgDailyConsumption p = Some r" for p r
  proof -
    have opts: "opt_reviewHorizonDays (engineOptions po ?now) = Some 0"
      "opt_overrideTargetWindowDays (engineOptions po ?now) = overrideTargetWindowDays po"
      using that(1) by (simp_all add: engineOptions_def)
    show ?thesis
      by (simp add: normal_case_recommended [OF that(2,3)] engineOptions_stock opts Let_def)
  qed
  from run rows window engine_window horizon engine_horizon show ?thesis
    by (intro exI [of _ ?s]) simp
qed

text \<open>
  Two items with lead time 2 and safety stock 3, both overrides 0. The summary reports a
  window of 5 days and a horizon of 14 days. The engine reorders the empty item with a
  quantity of 1 (a horizon of 14 days would give 112), and does not reorder the item
  with 3.75 days of stock, which is inside a window of 5 days.
\<close>

theorem C10_reported_policy_witness:
  "port_listProducts (workingPorts 0 [looseShampoo, lowShampoo]) = Inr [looseShampoo, lowShampoo]
   \<and> overrideTargetWindowDays zeroOverrides = Some 0
   \<and> reviewHorizonDays zeroOverrides = Some 0
   \<and> (\<exists>s. fst (execute (workingPorts 0 [looseShampoo, lowShampoo]) zeroOverrides
                  defaultNotification) = Inr s
          \<and> pol_targetWindowDays (policy s) = 5
          \<and> pol_reviewHorizonDays (policy s) = 14)
   \<and> d_needsReplenishment (computeDecision looseShampoo (engineOptions zeroOverrides 0))
   \<and> d_recommendedOrderQty (computeDecision looseShampoo (engineOptions zeroOverrides 0))
       = Some 1
   \<and> \<not> d_needsReplenishment (computeDecision lowShampoo (engineOptions zeroOverrides 0))
   \<and> d_recommendedOrderQty (computeDecision lowShampoo (engineOptions zeroOverrides 0)) = None"
proof -
  have wf: "\<forall>p\<in>set [looseShampoo, lowShampoo]. wellFormed p"
    by (simp add: wellFormed_def looseShampoo_def lowShampoo_def shampoo_def)
  have ok: "dryRun defaultNotification \<or> (\<forall>us so. port_saveProducts
              (workingPorts 0 [looseShampoo, lowShampoo]) us so = None)"
    "dryRun defaultNotification
       \<or> (\<forall>m. port_send (workingPorts 0 [looseShampoo, lowShampoo]) m = None)"
    by (simp_all add: workingPorts_facts)
  have zero: "overrideTargetWindowDays zeroOverrides = Some 0"
    "reviewHorizonDays zeroOverrides = Some 0"
    "autoDecrementStock zeroOverrides = None"
    by (simp_all add: zeroOverrides_def noOverrides_def)
  have loose: "\<not> hasAutoSubscription looseShampoo"
    "getAvgDailyConsumption looseShampoo = Some 8"
    "leadTimeDays looseShampoo = 2" "safetyStockDays looseShampoo = 3"
    "calculateCurrentStock looseShampoo 0 = 0"
    "applyOrderConstraints 0 looseShampoo = 1"
    by (simp_all add: looseShampoo_def shampoo_def hasAutoSubscription_def
        getAvgDailyConsumption_def calculateCurrentStock_def applyOrderConstraints_def
        orNumber_def)
  have low: "calculateCurrentStock lowShampoo 0 = 30"
    by (simp add: calculateCurrentStock_def lowShampoo_facts)
  from C10_reported_policy [OF workingPorts_facts(2) wf ok, of zeroOverrides,
      unfolded workingPorts_facts(1)]
  obtain s where s: "fst (execute (workingPorts 0 [looseShampoo, lowShampoo]) zeroOverrides
          defaultNotification) = Inr s"
      "pol_targetWindowDays (policy s) = 5" "pol_reviewHorizonDays (policy s) = 14"
    by (auto simp: zero loose)
  from C10_reported_policy [OF workingPorts_facts(2) wf ok, of zeroOverrides,
      unfolded workingPorts_facts(1)] zero
  have window: "\<forall>p r. \<not> hasAutoSubscription p \<and> getAvgDailyConsumption p = Some r \<longrightarrow>
        d_needsReplenishment (computeDecision p (engineOptions zeroOverrides 0))
        = (calculateCurrentStock p 0 / r \<le> 0)"
    and horizon: "\<forall>p r. \<not> hasAutoSubscription p \<and> getAvgDailyConsumption p = Some r \<longrightarrow>
        d_recommendedOrderQty (computeDecision p (engineOptions zeroOverrides 0))
        = (if calculateCurrentStock p 0 / r \<le> 0
           then Some (applyOrderConstraints
                        (real_of_int \<lceil>max 0 (0 * r - calculateCurrentStock p 0)\<rceil>) p)
           else None)"
    by (auto simp: Let_def)
  from window horizon loose(1,2)
  have a: "d_needsReplenishment (computeDecision looseShampoo (engineOptions zeroOverrides 0))
        = (calculateCurrentStock looseShampoo 0 / 8 \<le> 0)"
    "d_recommendedOrderQty (computeDecision looseShampoo (engineOptions zeroOverrides 0))
        = (if calculateCurrentStock looseShampoo 0 / 8 \<le> 0
           then Some (applyOrderConstraints
                        (real_of_int \<lceil>max 0 (0 * 8 - calculateCurrentStock looseShampoo 0)\<rceil>)
                        looseShampoo)
           else None)"
    by blast+
  from window horizon lowShampoo_facts(1,2)
  have b: "d_needsReplenishment (computeDecision lowShampoo (engineOptions zeroOverrides 0))
        = (calculateCurrentStock lowShampoo 0 / 8 \<le> 0)"
    "d_recommendedOrderQty (computeDecision lowShampoo (engineOptions zeroOverrides 0))
        = (if calculateCurrentStock lowShampoo 0 / 8 \<le> 0
           then Some (applyOrderConstraints
                        (real_of_int \<lceil>max 0 (0 * 8 - calculateCurrentStock lowShampoo 0)\<rceil>)
                        lowShampoo)
           else None)"
    by blast+
  from s a b show ?thesis
    by (auto simp: workingPorts_facts(2) zero loose low)
qed

section \<open>The source layer\<close>

text \<open>Every product that the source layer returns passed the constructor's checks.\<close>

lemma rowToProduct_wellFormed:
  "rowToProduct js row i = Inr (Some p) \<Longrightarrow> wellFormed p"
  by (auto simp: rowToProduct_def Let_def split: if_splits sum.splits dest: Product_new_Inr)

lemma parseRows_wellFormed:
  "\<forall>p\<in>set (parseRows js rows i). wellFormed p"
proof (induction rows arbitrary: i)
  case Nil
  show ?case by simp
next
  case (Cons r rs)
  show ?case
  proof (cases "rowToProduct js r (i + 2)")
    case (Inl e)
    with Cons.IH show ?thesis by simp
  next
    case (Inr v)
    with Cons.IH show ?thesis
      by (cases v) (auto dest: rowToProduct_wellFormed)
  qed
qed

lemma listProducts_wellFormed:
  "listProducts js response = Inr ps \<Longrightarrow> \<forall>p\<in>set ps. wellFormed p"
  by (auto simp: listProducts_def parseRows_wellFormed split: sum.splits list.splits)

text \<open>A row without an id, a name or a unit never becomes a product.\<close>

lemma rowToProduct_missing_required:
  "falsy (cell row 0) \<or> falsy (cell row 1) \<or> falsy (cell row 3) \<Longrightarrow>
     rowToProduct js row i \<noteq> Inr (Some p)"
  by (auto simp: rowToProduct_def)

text \<open>
  Claim C9 says that a row missing id, name, unit or the quantity, or with a unit that is
  not enumerated, is excluded before it reaches the engine. For id, name and unit this
  holds (the lemmas above). The quantity is not checked for presence: the mapper passes
  \<^verbatim>\<open>_parseNumber(qtyRemaining, 0)\<close> to the constructor, so a row without a quantity cell is
  loaded as a product with a quantity of 0, whatever the conversions of the runtime do.
\<close>

theorem C9_row_without_quantity_is_loaded:
  "cell saltRow 4 = None
   \<and> listProducts js (Inr [HEADER_ROW, saltRow]) =
       Inr [\<lparr> id_p = ''salt-001'', name = ''Sea Salt'', brand = None, unit = ''g'',
              qtyRemaining = 0, avgDailyConsumption = None, avgMonthlyConsumption = None,
              lastReplenishedAt = None, autoSubscription = None, buy = None,
              leadTimeDays = 2, safetyStockDays = 3, minOrderQty = None, packSize = None,
              needsReplenishment = False, replenishByDate = None, recommendedOrderQty = None,
              reason = None, lastCheckAt = None \<rparr>]"
  by (simp add: listProducts_def rowToProduct_def saltRow_def cell_def falsy_def String_def
      orNull_def trim_def isSpace_def toLowerCase_def lowerChar_def parseNumber_def
      parseNumberOrNull_def parseBoolean_def parseDate_def Product_new_def Let_def)

end
